theory Spec2Isabelle
  imports Main
begin

section \<open>Python values, exceptions and the outside world\<close>

text \<open>
  The three ingestion jobs (Hacker News, tech feeds, GitHub Trending) are Python programs
  that talk to the network, to a text generator and to a blob store. Every call that
  leaves the process is a parameter of the model (a field of an environment record);
  everything the source computes itself is a HOL function. A Python exception is a value
  \<open>Raised kind message\<close>; a function that may raise returns \<open>error + 'a\<close>, with
  \<open>Inl\<close> for the exception. Fields that the source reads with \<open>x["k"]\<close> or
  \<open>x.k\<close> are total record fields; fields read with \<open>x.get("k")\<close> are options, and
  so are the link and the title of a feed entry, which a feed may leave out.
  A character of a HOL string stands for one character of a Python \<open>str\<close>.
\<close>

datatype exn_kind =
    BinasciiError | UnicodeDecodeError | JSONDecodeError
  | AttributeError | TypeError | ValueError | KeyError | ClientError | OtherException

datatype error = Raised exn_kind string

fun str_of_error :: "error \<Rightarrow> string" where
  "str_of_error (Raised k m) = m"

text \<open>
  What a run can be observed to do: the requests it sends, in order, and the contents of
  the bucket. \<open>PutObject\<close> records that the put was issued; the bucket changes
  when the store accepts it. (The two-second pause between articles of the tech feed job
  is not part of the model.)
\<close>

datatype effect = HttpGet string | FeedParse string | PutObject string string

record world =
  bucket :: "string \<Rightarrow> string option"
  trace :: "effect list"

definition emit :: "effect \<Rightarrow> world \<Rightarrow> world" where
  "emit x w = w\<lparr>trace := trace w @ [x]\<rparr>"

subsection \<open>Strings\<close>

text \<open>\<open>sep.join(xs)\<close>\<close>

fun join :: "string \<Rightarrow> string list \<Rightarrow> string" where
  "join sep [] = []"
| "join sep [x] = x"
| "join sep (x # y # ys) = x @ sep @ join sep (y # ys)"

text \<open>\<open>str(n)\<close> for a Python int.\<close>

definition digit_char :: "nat \<Rightarrow> char" where
  "digit_char d = char_of (48 + d)"

fun str_nat :: "nat \<Rightarrow> string" where
  "str_nat n = (if n < 10 then [digit_char n] else str_nat (n div 10) @ [digit_char (n mod 10)])"

declare str_nat.simps [simp del]

definition str_int :: "int \<Rightarrow> string" where
  "str_int i = (if i < 0 then CHR ''-'' # str_nat (nat (- i)) else str_nat (nat i))"

text \<open>
  \<open>str.isspace()\<close>: at least one character and all of them whitespace. Among the first
  256 code points Python counts 9 to 13, 28 to 32, 133 and 160 as whitespace.
\<close>

definition space_char :: "char \<Rightarrow> bool" where
  "space_char c = (of_char c \<in> {9, 10, 11, 12, 13, 28, 29, 30, 31, 32, 133, 160 :: nat})"

definition isspace :: "string \<Rightarrow> bool" where
  "isspace s = (s \<noteq> [] \<and> list_all space_char s)"

subsection \<open>JSON values\<close>

text \<open>
  The invocation event and the decoded request body are what \<open>json.loads\<close> produces:
  \<open>None\<close>, booleans, numbers (integers here), strings, lists and dicts.
\<close>

datatype json =
    JNull | JBool bool | JNum int | JStr string
  | JArr "json list" | JObj "(string \<times> json) list"

type_synonym event = "(string \<times> json) list"

text \<open>Python's truth value of such a value, as \<open>if x:\<close> tests it.\<close>

fun truthy :: "json \<Rightarrow> bool" where
  "truthy JNull = False"
| "truthy (JBool b) = b"
| "truthy (JNum n) = (n \<noteq> 0)"
| "truthy (JStr s) = (s \<noteq> [])"
| "truthy (JArr xs) = (xs \<noteq> [])"
| "truthy (JObj kvs) = (kvs \<noteq> [])"

text \<open>\<open>d.get(key, default)\<close> on a dict.\<close>

definition dict_get :: "(string \<times> json) list \<Rightarrow> string \<Rightarrow> json \<Rightarrow> json" where
  "dict_get d k dflt = (case map_of d k of None \<Rightarrow> dflt | Some v \<Rightarrow> v)"

text \<open>\<open>x.get(key, default)\<close> on any value: only a dict has the method.\<close>

fun py_get :: "json \<Rightarrow> string \<Rightarrow> json \<Rightarrow> error + json" where
  "py_get (JObj d) k dflt = Inr (dict_get d k dflt)"
| "py_get v k dflt = Inl (Raised AttributeError ''object has no attribute get'')"

section \<open>The blob store\<close>

text \<open>
  \<open>_store_summaries\<close> is the same in the three jobs up to the key format
  \<open>"<job>/{date}.md"\<close>. The store answers a put by accepting it (\<open>None\<close>) or by
  raising; a \<open>ClientError\<close> is caught and printed, anything else propagates.
\<close>

record s3_env =
  today :: string
  put_object :: "string \<Rightarrow> string \<Rightarrow> error option"

definition summary_key :: "string \<Rightarrow> string \<Rightarrow> string" where
  "summary_key job date_str = job @ ''/'' @ date_str @ ''.md''"

definition separator :: string where
  "separator = ''\<newline>---\<newline>''"

definition store_summaries ::
  "string \<Rightarrow> s3_env \<Rightarrow> string list \<Rightarrow> world \<Rightarrow> (error + unit) \<times> world" where
  "store_summaries job s3 summaries w =
     (let key = summary_key job (today s3);
          content = join separator summaries;
          w1 = emit (PutObject key content) w
      in case put_object s3 key content of
           None \<Rightarrow> (Inr (), w1\<lparr>bucket := (bucket w1)(key \<mapsto> content)\<rparr>)
         | Some (Raised k m) \<Rightarrow>
             if k = ClientError then (Inr (), w1) else (Inl (Raised k m), w1))"

section \<open>The entry point\<close>

text \<open>
  \<open>lambda_handler\<close> is the same text in the three files up to the job it constructs and
  the name in the success message. \<open>base64.b64decode(s).decode('utf-8')\<close> and
  \<open>json.loads\<close> are library calls and so parameters. The body of a response stands for
  its \<open>json.dumps\<close> text.
\<close>

record gate_env =
  b64decode_utf8 :: "string \<Rightarrow> error + string"
  json_loads :: "string \<Rightarrow> error + json"

record response =
  statusCode :: int
  headers :: "(string \<times> string) list option"
  body :: "json option"

definition json_response :: "int \<Rightarrow> string \<Rightarrow> response" where
  "json_response code msg =
     \<lparr>statusCode = code,
      headers = Some [(''Content-Type'', ''application/json'')],
      body = Some (JObj [(''message'', JStr msg)])\<rparr>"

definition bare_response :: "int \<Rightarrow> response" where
  "bare_response code = \<lparr>statusCode = code, headers = None, body = None\<rparr>"

text \<open>
  \<open>body_str\<close> after the optional Base64 step (the handler catches
  \<open>binascii.Error\<close> and \<open>UnicodeDecodeError\<close> there and nothing else).
\<close>

definition body_str :: "gate_env \<Rightarrow> event \<Rightarrow> error + json" where
  "body_str g event =
     (let b = dict_get event ''body'' (JStr ''{}'')
      in if truthy (dict_get event ''isBase64Encoded'' (JBool False)) then
           (case b of
              JStr s \<Rightarrow>
                (case b64decode_utf8 g s of
                   Inr d \<Rightarrow> Inr (JStr d)
                 | Inl (Raised k m) \<Rightarrow>
                     if k = BinasciiError \<or> k = UnicodeDecodeError then Inr (JStr ''{}'')
                     else Inl (Raised k m))
            | _ \<Rightarrow> Inl (Raised TypeError ''argument should be a bytes-like object or ASCII string''))
         else Inr b)"

text \<open>
  The rest of the POST branch: \<open>json.loads(body_str)\<close> (a \<open>JSONDecodeError\<close> is caught
  and leaves the flag unset; a body that is not a string makes the slice or \<open>json.loads\<close>
  raise) and the test of the body's \<open>source\<close>.
\<close>

definition body_triggers :: "gate_env \<Rightarrow> event \<Rightarrow> error + bool" where
  "body_triggers g event =
     (case body_str g event of
        Inl e \<Rightarrow> Inl e
      | Inr (JStr s) \<Rightarrow>
          (case json_loads g s of
             Inl (Raised k m) \<Rightarrow> if k = JSONDecodeError then Inr False else Inl (Raised k m)
           | Inr body_json \<Rightarrow>
               (case py_get body_json ''source'' JNull of
                  Inl e \<Rightarrow> Inl e
                | Inr v \<Rightarrow> Inr (v = JStr ''aws.events'')))
      | Inr _ \<Rightarrow> Inl (Raised TypeError ''the JSON object must be str, bytes or bytearray''))"

definition is_trigger_event :: "gate_env \<Rightarrow> event \<Rightarrow> error + bool" where
  "is_trigger_event g event =
     (if dict_get event ''source'' JNull = JStr ''aws.events'' then Inr True
      else case map_of event ''requestContext'' of
             None \<Rightarrow> Inr False
           | Some rc \<Rightarrow>
               (case py_get rc ''http'' (JObj []) of
                  Inl e \<Rightarrow> Inl e
                | Inr http \<Rightarrow>
                    (case py_get http ''method'' JNull of
                       Inl e \<Rightarrow> Inl e
                     | Inr m \<Rightarrow>
                         if m = JStr ''POST'' then body_triggers g event else Inr False)))"

definition has_request_context :: "event \<Rightarrow> bool" where
  "has_request_context event = (map_of event ''requestContext'' \<noteq> None)"

definition failure_response :: "event \<Rightarrow> error \<Rightarrow> response" where
  "failure_response event e =
     (if has_request_context event
      then json_response 500 (''Internal server error: '' @ str_of_error e)
      else bare_response 500)"

definition lambda_handler ::
  "(world \<Rightarrow> (error + unit) \<times> world) \<Rightarrow> string \<Rightarrow> gate_env \<Rightarrow> event \<Rightarrow> world
     \<Rightarrow> response \<times> world" where
  "lambda_handler job name g event w =
     (case is_trigger_event g event of
        Inl e \<Rightarrow> (failure_response event e, w)
      | Inr True \<Rightarrow>
          (case job w of
             (Inl e, w') \<Rightarrow> (failure_response event e, w')
           | (Inr u, w') \<Rightarrow> (json_response 200 (name @ '' triggered successfully''), w'))
      | Inr False \<Rightarrow>
          (if has_request_context event
           then (json_response 400
                   ''Invalid request: Expected 'source: aws.events' in POST body'', w)
           else (bare_response 400, w)))"

section \<open>The Hacker News job\<close>

text \<open>
  A story as the item API returns it (\<open>story["title"]\<close>, \<open>story["score"]\<close>,
  \<open>story.get("url")\<close>, \<open>story.get("text")\<close>) and the \<open>Story\<close> dataclass.
\<close>

record hn_item =
  item_title :: string
  item_score :: int
  item_url :: "string option"
  item_text :: "string option"

record story =
  story_title :: string
  story_score :: int
  story_url :: "string option"
  story_text :: "string option"

text \<open>
  The outside of the job: the two API calls, \<open>BeautifulSoup(text, "html.parser").get_text()\<close>
  and the text generator, which receives the title and the body that the job puts into its
  fixed template, under its fixed instruction.
\<close>

record hn_env =
  hn_s3 :: s3_env
  hn_construct :: "error option"
  get_top_storie_ids :: "error + int list"
  get_story :: "int \<Rightarrow> error + hn_item"
  get_text :: "string \<Rightarrow> string"
  hn_generate_content :: "string \<Rightarrow> string \<Rightarrow> error + string"

definition hacker_news_num_top_stories :: nat where
  "hacker_news_num_top_stories = 30"

definition hacker_news_top_stories_url :: string where
  "hacker_news_top_stories_url = ''https://hacker-news.firebaseio.com/v0/topstories.json''"

definition hacker_news_item_url :: "int \<Rightarrow> string" where
  "hacker_news_item_url story_id =
     ''https://hacker-news.firebaseio.com/v0/item/'' @ str_int story_id @ ''.json''"

definition cleanse_text :: "hn_env \<Rightarrow> string \<Rightarrow> string" where
  "cleanse_text env text = (if text = [] then [] else get_text env text)"

definition summarize_story :: "hn_env \<Rightarrow> hn_item \<Rightarrow> error + string" where
  "summarize_story env story =
     (case item_text story of
        None \<Rightarrow> Inl (Raised KeyError ''text'')
      | Some t \<Rightarrow> hn_generate_content env (item_title story) (cleanse_text env t))"

text \<open>Step 4 of \<open>_get_top_stories\<close>: the value of \<open>summary\<close> after the \<open>if\<close>.\<close>

definition story_summary :: "hn_env \<Rightarrow> hn_item \<Rightarrow> error + string option" where
  "story_summary env story =
     (case item_text story of
        None \<Rightarrow> Inr None
      | Some t \<Rightarrow>
          if t = [] then Inr None
          else if 100 < length t \<and> length t < 10000 then
            (case summarize_story env story of Inl e \<Rightarrow> Inl e | Inr s \<Rightarrow> Inr (Some s))
          else Inr (Some (cleanse_text env t)))"

definition make_story :: "hn_item \<Rightarrow> string option \<Rightarrow> story" where
  "make_story story summary =
     \<lparr>story_title = item_title story,
      story_score = item_score story,
      story_url = item_url story,
      story_text = (case summary of None \<Rightarrow> item_text story | Some s \<Rightarrow> Some s)\<rparr>"

fun top_stories_loop ::
  "hn_env \<Rightarrow> int list \<Rightarrow> story list \<Rightarrow> world \<Rightarrow> (error + story list) \<times> world" where
  "top_stories_loop env [] stories w = (Inr stories, w)"
| "top_stories_loop env (story_id # ids) stories w =
     (let w1 = emit (HttpGet (hacker_news_item_url story_id)) w
      in case get_story env story_id of
           Inl e \<Rightarrow> (Inl e, w1)
         | Inr story \<Rightarrow>
             if item_score story < 20 then top_stories_loop env ids stories w1
             else (case story_summary env story of
                     Inl e \<Rightarrow> (Inl e, w1)
                   | Inr summary \<Rightarrow>
                       top_stories_loop env ids (stories @ [make_story story summary]) w1))"

definition get_top_stories :: "hn_env \<Rightarrow> world \<Rightarrow> (error + story list) \<times> world" where
  "get_top_stories env w =
     (let w1 = emit (HttpGet hacker_news_top_stories_url) w
      in case get_top_storie_ids env of
           Inl e \<Rightarrow> (Inl e, w1)
         | Inr ids \<Rightarrow> top_stories_loop env (take hacker_news_num_top_stories ids) [] w1)"

text \<open>What \<open>str.format\<close> puts for a field whose value may be \<open>None\<close>.\<close>

fun format_optional :: "string option \<Rightarrow> string" where
  "format_optional None = ''None''"
| "format_optional (Some s) = s"

definition url_or_text :: "story \<Rightarrow> string option" where
  "url_or_text s =
     (case story_url s of
        None \<Rightarrow> story_text s
      | Some u \<Rightarrow> if u = [] then story_text s else Some (''[View Link]('' @ u @ '')''))"

definition stylize_story :: "story \<Rightarrow> string" where
  "stylize_story s =
     ''\<newline># '' @ story_title s @ ''\<newline>\<newline>**Score**: '' @ str_int (story_score s)
       @ ''\<newline>\<newline>'' @ format_optional (url_or_text s) @ ''\<newline>''"

definition hacker_news_call :: "hn_env \<Rightarrow> world \<Rightarrow> (error + unit) \<times> world" where
  "hacker_news_call env w =
     (case get_top_stories env w of
        (Inl e, w1) \<Rightarrow> (Inl e, w1)
      | (Inr stories, w1) \<Rightarrow>
          if stories = [] then (Inr (), w1)
          else store_summaries ''hacker_news'' (hn_s3 env) (map stylize_story stories) w1)"

definition hacker_news_job :: "hn_env \<Rightarrow> world \<Rightarrow> (error + unit) \<times> world" where
  "hacker_news_job env w =
     (case hn_construct env of Some e \<Rightarrow> (Inl e, w) | None \<Rightarrow> hacker_news_call env w)"

definition hacker_news_lambda_handler ::
  "gate_env \<Rightarrow> hn_env \<Rightarrow> event \<Rightarrow> world \<Rightarrow> response \<times> world" where
  "hacker_news_lambda_handler g env = lambda_handler (hacker_news_job env) ''HackerNewsRetriever'' g"

section \<open>The tech feed job\<close>

text \<open>
  A feed entry, as the feed parser returns it: a dict whose keys are also attributes. A key
  the feed did not give is absent, so each field is an option: \<open>entry.get("k")\<close> is
  then \<open>None\<close> and \<open>entry.link\<close> or \<open>entry.title\<close> raise \<open>AttributeError\<close>. A
  parsed date is a time tuple. A \<open>datetime\<close> is a number of microseconds on the local
  time line.
\<close>

type_synonym struct_time = "int list"

record entry =
  entry_link :: "string option"
  entry_title :: "string option"
  date_parsed :: "struct_time option"
  published_parsed :: "struct_time option"

text \<open>
  \<open>Article\<close>; \<open>summary\<close> is unset by the constructor and assigned in \<open>__call__\<close> before
  it is read (the empty string stands for unset); \<open>soup\<close> and \<open>category\<close> are never read.
\<close>

record article =
  feed_name :: string
  article_title :: string
  article_url :: string
  article_text :: string
  summary :: string

record tf_env =
  tf_s3 :: s3_env
  tf_construct :: "error option"
  tech_feed_urls :: "(string \<times> string) list"
  now :: int
  feedparser_parse :: "string \<Rightarrow> error + entry list"
  fromtimestamp_mktime :: "struct_time \<Rightarrow> error + int"
  requests_get :: "string \<Rightarrow> error + string"
  find_all_text :: "string \<Rightarrow> error + string"
  tf_generate_content :: "string \<Rightarrow> string \<Rightarrow> error + string"

definition tech_feed_max_entries_per_day :: nat where
  "tech_feed_max_entries_per_day = 10"

definition threshold_days :: int where
  "threshold_days = 1"

definition microseconds_per_day :: int where
  "microseconds_per_day = 86400000000"

text \<open>\<open>self._threshold = datetime.now() - timedelta(days=Config.threshold_days)\<close>\<close>

definition threshold :: "tf_env \<Rightarrow> int" where
  "threshold env = now env - threshold_days * microseconds_per_day"

text \<open>\<open>entry.get("date_parsed") or entry.get("published_parsed")\<close>; an empty tuple is falsy.\<close>

definition entry_date :: "entry \<Rightarrow> struct_time option" where
  "entry_date e =
     (case date_parsed e of
        None \<Rightarrow> published_parsed e
      | Some d \<Rightarrow> if d = [] then published_parsed e else Some d)"

datatype diagnostic = DateIsNone string | DateConversionError string string

text \<open>\<open>entry.link\<close> and \<open>entry.title\<close>, outside any \<open>try\<close>.\<close>

definition attribute :: "string \<Rightarrow> string option \<Rightarrow> error + string" where
  "attribute name v =
     (case v of
        None \<Rightarrow> Inl (Raised AttributeError (''object has no attribute '' @ name))
      | Some x \<Rightarrow> Inr x)"

text \<open>
  The loop of \<open>_filter_entries\<close>, with the list it builds and the diagnostics it prints.
  Each diagnostic names the link of the entry it drops, and reading that link is not
  guarded: for an entry without one the diagnostic itself raises, and the exception leaves
  \<open>_filter_entries\<close> (what was printed before it is not kept).
\<close>

fun filter_entries_loop ::
  "tf_env \<Rightarrow> entry list \<Rightarrow> entry list \<Rightarrow> diagnostic list
     \<Rightarrow> error + entry list \<times> diagnostic list" where
  "filter_entries_loop env [] filtered_entries printed = Inr (filtered_entries, printed)"
| "filter_entries_loop env (e # es) filtered_entries printed =
     (case entry_date e of
        None \<Rightarrow>
          (case attribute ''link'' (entry_link e) of
             Inl err \<Rightarrow> Inl err
           | Inr l \<Rightarrow> filter_entries_loop env es filtered_entries (printed @ [DateIsNone l]))
      | Some date_ \<Rightarrow>
          if date_ = [] then
            (case attribute ''link'' (entry_link e) of
               Inl err \<Rightarrow> Inl err
             | Inr l \<Rightarrow> filter_entries_loop env es filtered_entries (printed @ [DateIsNone l]))
          else
            (case fromtimestamp_mktime env date_ of
               Inl exn \<Rightarrow>
                 (case attribute ''link'' (entry_link e) of
                    Inl err \<Rightarrow> Inl err
                  | Inr l \<Rightarrow>
                      filter_entries_loop env es filtered_entries
                        (printed @ [DateConversionError (str_of_error exn) l]))
             | Inr published_dt \<Rightarrow>
                 if published_dt > threshold env
                 then filter_entries_loop env es (filtered_entries @ [e]) printed
                 else filter_entries_loop env es filtered_entries printed))"

definition filter_entries ::
  "tf_env \<Rightarrow> entry list \<Rightarrow> error + entry list \<times> diagnostic list" where
  "filter_entries env entries = filter_entries_loop env entries [] []"

text \<open>Lines 72 and 73 of \<open>__call__\<close>.\<close>

definition cap_entries :: "entry list \<Rightarrow> entry list" where
  "cap_entries entries =
     (if length entries > tech_feed_max_entries_per_day
      then take tech_feed_max_entries_per_day entries else entries)"

definition retrieval_error :: "error \<Rightarrow> error" where
  "retrieval_error e =
     Raised OtherException (''Error raised while retrieving article: '' @ str_of_error e)"

text \<open>
  \<open>_retrieve_article\<close>: everything is inside the \<open>try\<close>, the reads of
  \<open>entry.link\<close> and \<open>entry.title\<close> too, and whatever is raised there is wrapped and
  raised again.
\<close>

definition retrieve_article ::
  "tf_env \<Rightarrow> entry \<Rightarrow> string \<Rightarrow> world \<Rightarrow> (error + article) \<times> world" where
  "retrieve_article env e name w =
     (case attribute ''link'' (entry_link e) of
        Inl err \<Rightarrow> (Inl (retrieval_error err), w)
      | Inr l \<Rightarrow>
          (let w1 = emit (HttpGet l) w
           in case requests_get env l of
                Inl err \<Rightarrow> (Inl (retrieval_error err), w1)
              | Inr html \<Rightarrow>
                  (case find_all_text env html of
                     Inl err \<Rightarrow> (Inl (retrieval_error err), w1)
                   | Inr plain \<Rightarrow>
                       (case attribute ''title'' (entry_title e) of
                          Inl err \<Rightarrow> (Inl (retrieval_error err), w1)
                        | Inr t \<Rightarrow>
                            (Inr \<lparr>feed_name = name, article_title = t, article_url = l,
                                  article_text = plain, summary = []\<rparr>, w1)))))"

definition summarize_article :: "tf_env \<Rightarrow> article \<Rightarrow> string" where
  "summarize_article env a =
     (if article_text a = [] \<or> isspace (article_text a)
      then ''Content could not be retrieved or was empty.''
      else case tf_generate_content env (article_title a) (take 20000 (article_text a)) of
             Inr s \<Rightarrow> s
           | Inl e \<Rightarrow> ''Error summarizing content: '' @ str_of_error e)"

definition stylize_article :: "article \<Rightarrow> string" where
  "stylize_article a =
     ''\<newline># '' @ article_title a @ ''\<newline>\<newline>[View on '' @ feed_name a @ '']('' @ article_url a
       @ '')\<newline>\<newline>'' @ summary a @ ''\<newline>''"

text \<open>The inner loop of \<open>__call__\<close>: nothing catches what \<open>_retrieve_article\<close> raises.\<close>

fun entries_loop ::
  "tf_env \<Rightarrow> string \<Rightarrow> entry list \<Rightarrow> string list \<Rightarrow> world \<Rightarrow> (error + string list) \<times> world" where
  "entries_loop env name [] markdowns w = (Inr markdowns, w)"
| "entries_loop env name (e # es) markdowns w =
     (case retrieve_article env e name w of
        (Inl err, w1) \<Rightarrow> (Inl err, w1)
      | (Inr a, w1) \<Rightarrow>
          entries_loop env name es
            (markdowns @ [stylize_article (a\<lparr>summary := summarize_article env a\<rparr>)]) w1)"

fun feeds_loop ::
  "tf_env \<Rightarrow> (string \<times> string) list \<Rightarrow> string list \<Rightarrow> world \<Rightarrow> (error + string list) \<times> world" where
  "feeds_loop env [] markdowns w = (Inr markdowns, w)"
| "feeds_loop env ((name, feed_url) # fs) markdowns w =
     (let w1 = emit (FeedParse feed_url) w
      in case feedparser_parse env feed_url of
           Inl err \<Rightarrow> (Inl err, w1)
         | Inr parsed \<Rightarrow>
             (case filter_entries env parsed of
                Inl err \<Rightarrow> (Inl err, w1)
              | Inr (entries, printed) \<Rightarrow>
                  (case entries_loop env name (cap_entries entries) markdowns w1 of
                     (Inl err, w2) \<Rightarrow> (Inl err, w2)
                   | (Inr markdowns', w2) \<Rightarrow> feeds_loop env fs markdowns' w2)))"

definition tech_feed_call :: "tf_env \<Rightarrow> world \<Rightarrow> (error + unit) \<times> world" where
  "tech_feed_call env w =
     (case feeds_loop env (tech_feed_urls env) [] w of
        (Inl err, w1) \<Rightarrow> (Inl err, w1)
      | (Inr markdowns, w1) \<Rightarrow> store_summaries ''tech_feed'' (tf_s3 env) markdowns w1)"

definition tech_feed_job :: "tf_env \<Rightarrow> world \<Rightarrow> (error + unit) \<times> world" where
  "tech_feed_job env w =
     (case tf_construct env of Some e \<Rightarrow> (Inl e, w) | None \<Rightarrow> tech_feed_call env w)"

definition tech_feed_lambda_handler ::
  "gate_env \<Rightarrow> tf_env \<Rightarrow> event \<Rightarrow> world \<Rightarrow> response \<times> world" where
  "tech_feed_lambda_handler g env = lambda_handler (tech_feed_job env) ''TechFeed'' g"

section \<open>The GitHub Trending job\<close>

record repository =
  repo_name :: string
  description :: "string option"
  repo_link :: string
  stars :: int

text \<open>
  \<open>_retrieve_repositories\<close> fetches a page and reads the repositories off its elements;
  its result, or what it raises, is a parameter.
\<close>

record gt_env =
  gt_s3 :: s3_env
  gt_construct :: "error option"
  languages :: "string list"
  retrieve_repositories :: "string \<Rightarrow> error + repository list"

definition url_format :: "string \<Rightarrow> string" where
  "url_format language = ''https://github.com/trending/'' @ language @ ''?since=daily''"

definition stylize_repository_info :: "repository \<Rightarrow> string" where
  "stylize_repository_info r =
     ''\<newline># '' @ repo_name r @ ''\<newline>\<newline>**Score**: '' @ str_int (stars r)
       @ ''\<newline>\<newline>[View Link]('' @ repo_link r @ '')\<newline>\<newline>''
       @ (case description r of
            None \<Rightarrow> ''No description''
          | Some d \<Rightarrow> if d = [] then ''No description'' else d)
       @ ''\<newline>''"

text \<open>The loop of \<open>__call__\<close>: whatever one language raises is caught and the loop goes on.\<close>

fun languages_loop :: "gt_env \<Rightarrow> string list \<Rightarrow> string list \<Rightarrow> world \<Rightarrow> string list \<times> world" where
  "languages_loop env [] markdowns w = (markdowns, w)"
| "languages_loop env (language # ls) markdowns w =
     (let w1 = emit (HttpGet (url_format language)) w
      in case retrieve_repositories env (url_format language) of
           Inl e \<Rightarrow> languages_loop env ls markdowns w1
         | Inr new_repositories \<Rightarrow>
             languages_loop env ls (markdowns @ map stylize_repository_info new_repositories) w1)"

definition github_trending_call :: "gt_env \<Rightarrow> world \<Rightarrow> (error + unit) \<times> world" where
  "github_trending_call env w =
     (case languages_loop env (languages env) [] w of
        (markdowns, w1) \<Rightarrow> store_summaries ''github_trending'' (gt_s3 env) markdowns w1)"

definition github_trending_job :: "gt_env \<Rightarrow> world \<Rightarrow> (error + unit) \<times> world" where
  "github_trending_job env w =
     (case gt_construct env of Some e \<Rightarrow> (Inl e, w) | None \<Rightarrow> github_trending_call env w)"

definition github_trending_lambda_handler ::
  "gate_env \<Rightarrow> gt_env \<Rightarrow> event \<Rightarrow> world \<Rightarrow> response \<times> world" where
  "github_trending_lambda_handler g env = lambda_handler (github_trending_job env) ''GithubTrending'' g"

section \<open>Observing a run\<close>

text \<open>The puts a run has issued so far.\<close>

fun is_put :: "effect \<Rightarrow> bool" where
  "is_put (PutObject key content) = True"
| "is_put x = False"

definition puts :: "world \<Rightarrow> effect list" where
  "puts w = filter is_put (trace w)"

text \<open>The link a diagnostic of \<open>_filter_entries\<close> names.\<close>

fun diagnostic_link :: "diagnostic \<Rightarrow> string" where
  "diagnostic_link (DateIsNone l) = l"
| "diagnostic_link (DateConversionError msg l) = l"

text \<open>
  The time the date filter compares with the threshold: the entry's date as the code picks
  it (\<open>date_parsed\<close>, and \<open>published_parsed\<close> when that is absent), converted, when
  there is one and the conversion succeeds.
\<close>

definition entry_datetime :: "tf_env \<Rightarrow> entry \<Rightarrow> int option" where
  "entry_datetime env e =
     (case entry_date e of
        None \<Rightarrow> None
      | Some d \<Rightarrow>
          if d = [] then None
          else (case fromtimestamp_mktime env d of Inl err \<Rightarrow> None | Inr t \<Rightarrow> Some t))"

definition dated_after_threshold :: "tf_env \<Rightarrow> entry \<Rightarrow> bool" where
  "dated_after_threshold env e =
     (case entry_datetime env e of
        None \<Rightarrow> False
      | Some t \<Rightarrow> now env - 1 * microseconds_per_day < t)"

text \<open>
  The specification's words for the date filter: the parsed publish date of an entry is its
  \<open>published_parsed\<close>, converted, and an entry is to be kept exactly when that date falls
  after the current time minus one day.
\<close>

definition parsed_publish_date :: "tf_env \<Rightarrow> entry \<Rightarrow> int option" where
  "parsed_publish_date env e =
     (case published_parsed e of
        None \<Rightarrow> None
      | Some d \<Rightarrow> (case fromtimestamp_mktime env d of Inl err \<Rightarrow> None | Inr t \<Rightarrow> Some t))"

definition published_after_threshold :: "tf_env \<Rightarrow> entry \<Rightarrow> bool" where
  "published_after_threshold env e =
     (case parsed_publish_date env e of
        None \<Rightarrow> False
      | Some t \<Rightarrow> now env - 1 * microseconds_per_day < t)"

section \<open>Example runs\<close>

text \<open>Concrete worlds and environments, on which the theorems below are exercised.\<close>

definition empty_world :: world where
  "empty_world = \<lparr>bucket = Map.empty, trace = []\<rparr>"

definition demo_s3 :: s3_env where
  "demo_s3 = \<lparr>today = ''2025-01-02'', put_object = (\<lambda>key content. None)\<rparr>"

definition demo_gate :: gate_env where
  "demo_gate =
     \<lparr>b64decode_utf8 =
        (\<lambda>s. if s = ''e30='' then Inr ''{}''
             else Inl (Raised BinasciiError ''Incorrect padding'')),
      json_loads =
        (\<lambda>s. if s = ''{}'' then Inr (JObj [])
             else if s = ''{\"source\": \"manual\"}''
               then Inr (JObj [(''source'', JStr ''manual'')])
             else Inl (Raised JSONDecodeError ''Expecting value''))\<rparr>"

definition post_context :: json where
  "post_context = JObj [(''http'', JObj [(''method'', JStr ''POST'')])]"

definition manual_post_event :: event where
  "manual_post_event =
     [(''requestContext'', post_context), (''body'', JStr ''{\"source\": \"manual\"}'')]"

definition broken_base64_event :: event where
  "broken_base64_event =
     [(''requestContext'', post_context), (''body'', JStr ''e30''),
      (''isBase64Encoded'', JBool True)]"

text \<open>
  A decoder that, like \<open>base64.b64decode\<close>, refuses a string with a character beyond
  ASCII with a plain \<open>ValueError\<close>, and a request whose body is one such character.
\<close>

definition ascii_gate :: gate_env where
  "ascii_gate =
     demo_gate\<lparr>b64decode_utf8 :=
       (\<lambda>s. if list_all (\<lambda>c. of_char c < (128 :: nat)) s then b64decode_utf8 demo_gate s
            else Inl (Raised ValueError ''string argument should contain only ASCII characters''))\<rparr>"

definition non_ascii_base64_event :: event where
  "non_ascii_base64_event =
     [(''requestContext'', post_context), (''body'', JStr [CHR 0xE9]),
      (''isBase64Encoded'', JBool True)]"

definition unrecognized_event :: event where
  "unrecognized_event = [(''source'', JStr ''manual'')]"

subsection \<open>Hacker News\<close>

text \<open>A tag stripper, standing for \<open>get_text\<close> in the examples.\<close>

fun strip_tags :: "bool \<Rightarrow> string \<Rightarrow> string" where
  "strip_tags in_tag [] = []"
| "strip_tags in_tag (c # cs) =
     (if in_tag then (if c = CHR ''>'' then strip_tags False cs else strip_tags True cs)
      else if c = CHR ''<'' then strip_tags True cs
      else c # strip_tags False cs)"

definition link_only_text :: string where
  "link_only_text =
     ''<a href=\"https://example.com/a/rather/long/address/that/makes/the/markup/longer/than/one/hundred/characters\">x</a>''"

definition link_story :: hn_item where
  "link_story = \<lparr>item_title = ''Show HN: A link'', item_score = 57,
                  item_url = None, item_text = Some link_only_text\<rparr>"

definition low_story :: hn_item where
  "low_story = \<lparr>item_title = ''Quiet'', item_score = 5,
                 item_url = Some ''https://example.com/quiet'', item_text = None\<rparr>"

definition bare_story :: hn_item where
  "bare_story = \<lparr>item_title = ''Ask HN: Who is hiring?'', item_score = 42,
                  item_url = None, item_text = None\<rparr>"

definition short_story :: hn_item where
  "short_story = \<lparr>item_title = ''Tell HN: Hello'', item_score = 20,
                   item_url = None, item_text = Some ''<p>Hello</p>''\<rparr>"

definition demo_hn :: hn_env where
  "demo_hn =
     \<lparr>hn_s3 = demo_s3,
      hn_construct = None,
      get_top_storie_ids = Inr [1, 2, 3, 4],
      get_story =
        (\<lambda>i. if i = 1 then Inr link_story else if i = 2 then Inr low_story
             else if i = 3 then Inr bare_story else if i = 4 then Inr short_story
             else Inl (Raised OtherException ''no such item'')),
      get_text = strip_tags False,
      hn_generate_content = (\<lambda>title text. Inr (''Summary of '' @ title))\<rparr>"

definition quiet_hn :: hn_env where
  "quiet_hn = demo_hn\<lparr>get_top_storie_ids := Inr [2]\<rparr>"

definition bare_hn :: hn_env where
  "bare_hn = demo_hn\<lparr>get_top_storie_ids := Inr [3]\<rparr>"

subsection \<open>Tech feed\<close>

text \<open>
  Time tuples are \<open>(year, month, day, hour, minute, second, weekday, yearday, isdst)\<close>;
  the example clock counts microseconds from the start of the year and refuses a tuple of
  another shape or a year beyond 9999.
\<close>

definition demo_clock :: "struct_time \<Rightarrow> error + int" where
  "demo_clock d =
     (case d of
        [y, mo, md, h, mi, s, wd, yd, dst] \<Rightarrow>
          if y < 1 \<or> 9999 < y then Inl (Raised ValueError ''year out of range'')
          else Inr ((((yd * 24 + h) * 60 + mi) * 60 + s) * 1000000)
      | _ \<Rightarrow> Inl (Raised TypeError ''function takes exactly 9 arguments''))"

definition post :: "nat \<Rightarrow> struct_time option \<Rightarrow> struct_time option \<Rightarrow> entry" where
  "post i d p =
     \<lparr>entry_link = Some (''https://blog.example/post/'' @ str_nat i),
      entry_title = Some (''Post '' @ str_nat i),
      date_parsed = d, published_parsed = p\<rparr>"

definition fresh_post :: "nat \<Rightarrow> entry" where
  "fresh_post i = post i (Some [2025, 1, 2, 9, 0, 0, 3, 2, 0]) None"

text \<open>
  With the clock at noon of 2 January the threshold is noon of 1 January: post 1 is fresh,
  post 4 carries its date in \<open>published_parsed\<close>, post 5 sits on the threshold, post 6 is
  older, post 7 has no date and the date of post 8 cannot be converted.
\<close>

definition mixed_entries :: "entry list" where
  "mixed_entries =
     [fresh_post 1,
      post 5 (Some [2025, 1, 1, 12, 0, 0, 2, 1, 0]) None,
      post 7 None None,
      post 6 (Some [2025, 1, 1, 8, 0, 0, 2, 1, 0]) None,
      post 8 (Some [10000, 1, 1, 0, 0, 0, 5, 1, 0]) None,
      post 4 None (Some [2025, 1, 2, 10, 30, 0, 3, 2, 0])]"

text \<open>
  Post 9 was published on the morning of 2 January and carries an older \<open>date_parsed\<close>;
  post 3 is the other way round. The last entry has neither a date nor a link.
\<close>

definition republished_post :: entry where
  "republished_post =
     post 9 (Some [2025, 1, 1, 8, 0, 0, 2, 1, 0]) (Some [2025, 1, 2, 10, 0, 0, 3, 2, 0])"

definition touched_post :: entry where
  "touched_post =
     post 3 (Some [2025, 1, 2, 10, 0, 0, 3, 2, 0]) (Some [2025, 1, 1, 8, 0, 0, 2, 1, 0])"

definition anonymous_entry :: entry where
  "anonymous_entry =
     \<lparr>entry_link = None, entry_title = Some ''Untitled'',
      date_parsed = None, published_parsed = None\<rparr>"

text \<open>A feed of twelve fresh entries; the page of the first is empty, the second is post 2.\<close>

definition dozen_entries :: "entry list" where
  "dozen_entries = fresh_post 30 # fresh_post 2 # map fresh_post [31..<41]"

definition demo_tf :: tf_env where
  "demo_tf =
     \<lparr>tf_s3 = demo_s3,
      tf_construct = None,
      tech_feed_urls = [(''Example Blog'', ''https://blog.example/feed'')],
      now = 216000000000,
      feedparser_parse =
        (\<lambda>u. if u = ''https://blog.example/feed'' then Inr mixed_entries
             else if u = ''https://blog.example/broken'' then Inr [fresh_post 2, fresh_post 1]
             else if u = ''https://blog.example/busy'' then Inr (map fresh_post [10..<22])
             else if u = ''https://blog.example/dozen'' then Inr dozen_entries
             else Inr []),
      fromtimestamp_mktime = demo_clock,
      requests_get =
        (\<lambda>u. if u = ''https://blog.example/post/2''
               then Inl (Raised OtherException ''connection refused'')
             else if u = ''https://blog.example/post/30'' then Inr ''<div></div>''
             else Inr (''<p>Body of '' @ u @ ''</p>'')),
      find_all_text = (\<lambda>html. Inr (strip_tags False html)),
      tf_generate_content = (\<lambda>title text. Inr (''Summary of '' @ title))\<rparr>"

definition broken_tf :: tf_env where
  "broken_tf =
     demo_tf\<lparr>tech_feed_urls :=
       [(''Broken Blog'', ''https://blog.example/broken''),
        (''Example Blog'', ''https://blog.example/feed'')]\<rparr>"

definition busy_tf :: tf_env where
  "busy_tf = demo_tf\<lparr>tech_feed_urls := [(''Busy Blog'', ''https://blog.example/busy'')]\<rparr>"

definition dozen_tf :: tf_env where
  "dozen_tf = demo_tf\<lparr>tech_feed_urls := [(''Dozen Blog'', ''https://blog.example/dozen'')]\<rparr>"

definition idle_tf :: tf_env where
  "idle_tf = demo_tf\<lparr>tech_feed_urls := [(''Idle Blog'', ''https://blog.example/idle'')]\<rparr>"

subsection \<open>GitHub Trending\<close>

definition demo_gt :: gt_env where
  "demo_gt =
     \<lparr>gt_s3 = demo_s3,
      gt_construct = None,
      languages = [''python'', ''rust''],
      retrieve_repositories =
        (\<lambda>u. if u = ''https://github.com/trending/python?since=daily''
               then Inr [\<lparr>repo_name = ''octo/cat'', description = None,
                          repo_link = ''https://github.com/octo/cat'', stars = 1234\<rparr>]
             else Inl (Raised OtherException ''page could not be read''))\<rparr>"

definition idle_gt :: gt_env where
  "idle_gt = demo_gt\<lparr>languages := []\<rparr>"

definition scheduled_event :: event where
  "scheduled_event = [(''source'', JStr ''aws.events'')]"

section \<open>The entry point: what an invocation that does not trigger gets\<close>

lemma handler_no_shape:
  assumes "dict_get event ''source'' JNull \<noteq> JStr ''aws.events''"
    and "map_of event ''requestContext'' = None"
  shows "lambda_handler job name g event w = (bare_response 400, w)"
  using assms by (simp add: lambda_handler_def is_trigger_event_def has_request_context_def)

lemma handler_post_not_triggered:
  assumes "dict_get event ''source'' JNull \<noteq> JStr ''aws.events''"
    and "map_of event ''requestContext'' = Some rc"
    and "py_get rc ''http'' (JObj []) = Inr http"
    and "py_get http ''method'' JNull = Inr (JStr ''POST'')"
    and "body_triggers g event = Inr False"
  shows "lambda_handler job name g event w =
           (json_response 400 ''Invalid request: Expected 'source: aws.events' in POST body'', w)"
  using assms by (simp add: lambda_handler_def is_trigger_event_def has_request_context_def)

lemma body_triggers_other_source:
  assumes "body_str g event = Inr (JStr s)"
    and "json_loads g s = Inr (JObj d)"
    and "dict_get d ''source'' JNull \<noteq> JStr ''aws.events''"
  shows "body_triggers g event = Inr False"
  using assms by (simp add: body_triggers_def)

lemma body_str_decode_failure:
  assumes "truthy (dict_get event ''isBase64Encoded'' (JBool False))"
    and "dict_get event ''body'' (JStr ''{}'') = JStr s"
    and "b64decode_utf8 g s = Inl (Raised k m)"
    and "k = BinasciiError \<or> k = UnicodeDecodeError"
  shows "body_str g event = Inr (JStr ''{}'')"
  using assms by (auto simp add: body_str_def)

lemmas handler_defs =
  hacker_news_lambda_handler_def tech_feed_lambda_handler_def github_trending_lambda_handler_def

lemmas demo_event_defs =
  demo_gate_def post_context_def manual_post_event_def broken_base64_event_def
  unrecognized_event_def dict_get_def

text \<open>
  Claim C5, as the code has it. An event whose top-level \<open>source\<close> is not
  \<open>"aws.events"\<close> and that has no \<open>requestContext\<close> key gets, from each of the three
  handlers, the bare status code 400 (no headers, no body), and the job is not run: the
  answer is the same whatever the job would do, and the world is untouched. The code is
  400, the code of the client-error answer, not a server-side one.
\<close>

theorem C5_unrecognized_event_bare_400:
  assumes "dict_get event ''source'' JNull \<noteq> JStr ''aws.events''"
    and "map_of event ''requestContext'' = None"
  shows "hacker_news_lambda_handler g hn event w = (bare_response 400, w)
       \<and> tech_feed_lambda_handler g tf event w = (bare_response 400, w)
       \<and> github_trending_lambda_handler g gt event w = (bare_response 400, w)
       \<and> statusCode (bare_response 400) = 400
       \<and> headers (bare_response 400) = None \<and> body (bare_response 400) = None"
  using assms by (simp add: handler_defs handler_no_shape bare_response_def)

theorem C5_unrecognized_event_bare_400_witness:
  "dict_get unrecognized_event ''source'' JNull \<noteq> JStr ''aws.events''
   \<and> map_of unrecognized_event ''requestContext'' = None
   \<and> hacker_news_lambda_handler demo_gate demo_hn unrecognized_event empty_world
       = (bare_response 400, empty_world)
   \<and> tech_feed_lambda_handler demo_gate demo_tf unrecognized_event empty_world
       = (bare_response 400, empty_world)
   \<and> github_trending_lambda_handler demo_gate demo_gt unrecognized_event empty_world
       = (bare_response 400, empty_world)"
proof -
  have a: "dict_get unrecognized_event ''source'' JNull \<noteq> JStr ''aws.events''"
    by (simp add: demo_event_defs)
  have b: "map_of unrecognized_event ''requestContext'' = None"
    by (simp add: demo_event_defs)
  show ?thesis
    using a b C5_unrecognized_event_bare_400 [OF a b, of demo_gate demo_hn empty_world demo_tf demo_gt]
    by simp
qed

text \<open>
  Claim C5 as worded asks for a server-side status. At the event \<open>{"source": "manual"}\<close>
  the tech feed handler answers 400, which is not in the range 500 to 599.
\<close>

theorem C5_counterexample_status_is_client_error:
  "statusCode (fst (tech_feed_lambda_handler demo_gate demo_tf unrecognized_event empty_world)) = 400
   \<and> \<not> (500 \<le> statusCode (fst (tech_feed_lambda_handler demo_gate demo_tf unrecognized_event empty_world))
        \<and> statusCode (fst (tech_feed_lambda_handler demo_gate demo_tf unrecognized_event empty_world)) \<le> 599)"
  by (simp add: handler_defs handler_no_shape demo_event_defs bare_response_def)

text \<open>
  Claim C6. An HTTP POST invocation (the top-level \<open>source\<close> is not the scheduler's and
  \<open>requestContext.http.method\<close> is \<open>"POST"\<close>) whose body string, after the optional
  Base64 step, parses as a JSON object whose \<open>source\<close> is not \<open>"aws.events"\<close> gets
  status 400 with a JSON body from each handler, and the job is not run: no request is
  sent and the bucket is not written, the world is returned as it was.
\<close>

theorem C6_post_with_other_source_is_400:
  assumes "dict_get event ''source'' JNull \<noteq> JStr ''aws.events''"
    and "map_of event ''requestContext'' = Some rc"
    and "py_get rc ''http'' (JObj []) = Inr http"
    and "py_get http ''method'' JNull = Inr (JStr ''POST'')"
    and "body_str g event = Inr (JStr s)"
    and "json_loads g s = Inr (JObj d)"
    and "dict_get d ''source'' JNull \<noteq> JStr ''aws.events''"
  shows "hacker_news_lambda_handler g hn event w
           = (json_response 400 ''Invalid request: Expected 'source: aws.events' in POST body'', w)
       \<and> tech_feed_lambda_handler g tf event w
           = (json_response 400 ''Invalid request: Expected 'source: aws.events' in POST body'', w)
       \<and> github_trending_lambda_handler g gt event w
           = (json_response 400 ''Invalid request: Expected 'source: aws.events' in POST body'', w)
       \<and> statusCode (json_response 400 msg) = 400 \<and> body (json_response 400 msg) \<noteq> None"
proof -
  have "body_triggers g event = Inr False"
    using assms(5-7) by (rule body_triggers_other_source)
  then show ?thesis
    using assms(1-4) by (simp add: handler_defs handler_post_not_triggered json_response_def)
qed

theorem C6_post_with_other_source_is_400_witness:
  "hacker_news_lambda_handler demo_gate demo_hn manual_post_event empty_world
     = (json_response 400 ''Invalid request: Expected 'source: aws.events' in POST body'', empty_world)
   \<and> tech_feed_lambda_handler demo_gate demo_tf manual_post_event empty_world
     = (json_response 400 ''Invalid request: Expected 'source: aws.events' in POST body'', empty_world)
   \<and> github_trending_lambda_handler demo_gate demo_gt manual_post_event empty_world
     = (json_response 400 ''Invalid request: Expected 'source: aws.events' in POST body'', empty_world)"
proof -
  have a: "dict_get manual_post_event ''source'' JNull \<noteq> JStr ''aws.events''"
    by (simp add: demo_event_defs)
  have b: "map_of manual_post_event ''requestContext'' = Some post_context"
    by (simp add: demo_event_defs)
  have c: "py_get post_context ''http'' (JObj []) = Inr (JObj [(''method'', JStr ''POST'')])"
    by (simp add: demo_event_defs)
  have d: "py_get (JObj [(''method'', JStr ''POST'')]) ''method'' JNull = Inr (JStr ''POST'')"
    by (simp add: demo_event_defs)
  have e: "body_str demo_gate manual_post_event = Inr (JStr ''{\"source\": \"manual\"}'')"
    by (simp add: body_str_def demo_event_defs)
  have f: "json_loads demo_gate ''{\"source\": \"manual\"}'' = Inr (JObj [(''source'', JStr ''manual'')])"
    by (simp add: demo_event_defs)
  have h: "dict_get [(''source'', JStr ''manual'')] ''source'' JNull \<noteq> JStr ''aws.events''"
    by (simp add: demo_event_defs)
  show ?thesis
    using C6_post_with_other_source_is_400 [OF a b c d e f h, of demo_hn empty_world demo_tf demo_gt]
    by simp
qed

text \<open>
  Claim C10, as the code has it. The handler catches two classes at the decoding step. On
  an HTTP POST invocation flagged \<open>isBase64Encoded\<close> whose body string makes the decoding
  raise \<open>binascii.Error\<close> (the Base64 step) or \<open>UnicodeDecodeError\<close> (the UTF-8
  step), the handler goes on with the body \<open>"{}"\<close>, which \<open>json.loads\<close> reads as the
  empty object; each handler answers 400 with a JSON body, not 500, and the job is not run.
\<close>

theorem C10_undecodable_base64_body_is_400:
  assumes "dict_get event ''source'' JNull \<noteq> JStr ''aws.events''"
    and "map_of event ''requestContext'' = Some rc"
    and "py_get rc ''http'' (JObj []) = Inr http"
    and "py_get http ''method'' JNull = Inr (JStr ''POST'')"
    and "truthy (dict_get event ''isBase64Encoded'' (JBool False))"
    and "dict_get event ''body'' (JStr ''{}'') = JStr s"
    and "b64decode_utf8 g s = Inl (Raised k m)"
    and "k = BinasciiError \<or> k = UnicodeDecodeError"
    and "json_loads g ''{}'' = Inr (JObj [])"
  shows "body_str g event = Inr (JStr ''{}'')
       \<and> hacker_news_lambda_handler g hn event w
           = (json_response 400 ''Invalid request: Expected 'source: aws.events' in POST body'', w)
       \<and> tech_feed_lambda_handler g tf event w
           = (json_response 400 ''Invalid request: Expected 'source: aws.events' in POST body'', w)
       \<and> github_trending_lambda_handler g gt event w
           = (json_response 400 ''Invalid request: Expected 'source: aws.events' in POST body'', w)
       \<and> statusCode (fst (hacker_news_lambda_handler g hn event w)) \<noteq> 500"
proof -
  have bs: "body_str g event = Inr (JStr ''{}'')"
    using assms(5-8) by (rule body_str_decode_failure)
  have "dict_get [] ''source'' JNull \<noteq> JStr ''aws.events''"
    by (simp add: dict_get_def)
  with bs assms(9) have "body_triggers g event = Inr False"
    by (rule body_triggers_other_source)
  then show ?thesis
    using bs assms(1-4) by (simp add: handler_defs handler_post_not_triggered json_response_def)
qed

theorem C10_undecodable_base64_body_is_400_witness:
  "b64decode_utf8 demo_gate ''e30'' = Inl (Raised BinasciiError ''Incorrect padding'')
   \<and> body_str demo_gate broken_base64_event = Inr (JStr ''{}'')
   \<and> hacker_news_lambda_handler demo_gate demo_hn broken_base64_event empty_world
     = (json_response 400 ''Invalid request: Expected 'source: aws.events' in POST body'', empty_world)
   \<and> tech_feed_lambda_handler demo_gate demo_tf broken_base64_event empty_world
     = (json_response 400 ''Invalid request: Expected 'source: aws.events' in POST body'', empty_world)
   \<and> github_trending_lambda_handler demo_gate demo_gt broken_base64_event empty_world
     = (json_response 400 ''Invalid request: Expected 'source: aws.events' in POST body'', empty_world)"
proof -
  have a: "dict_get broken_base64_event ''source'' JNull \<noteq> JStr ''aws.events''"
    by (simp add: demo_event_defs)
  have b: "map_of broken_base64_event ''requestContext'' = Some post_context"
    by (simp add: demo_event_defs)
  have c: "py_get post_context ''http'' (JObj []) = Inr (JObj [(''method'', JStr ''POST'')])"
    by (simp add: demo_event_defs)
  have d: "py_get (JObj [(''method'', JStr ''POST'')]) ''method'' JNull = Inr (JStr ''POST'')"
    by (simp add: demo_event_defs)
  have e: "truthy (dict_get broken_base64_event ''isBase64Encoded'' (JBool False))"
    by (simp add: demo_event_defs)
  have f: "dict_get broken_base64_event ''body'' (JStr ''{}'') = JStr ''e30''"
    by (simp add: demo_event_defs)
  have h: "b64decode_utf8 demo_gate ''e30'' = Inl (Raised BinasciiError ''Incorrect padding'')"
    by (simp add: demo_event_defs)
  have i: "BinasciiError = BinasciiError \<or> BinasciiError = UnicodeDecodeError"
    by simp
  have j: "json_loads demo_gate ''{}'' = Inr (JObj [])"
    by (simp add: demo_event_defs)
  show ?thesis
    using h C10_undecodable_base64_body_is_400 [OF a b c d e f h i j, of demo_hn empty_world demo_tf demo_gt]
    by simp
qed

text \<open>
  Claim C10 as worded covers every body that fails to decode. A body with a character beyond
  ASCII makes \<open>b64decode\<close> raise a plain \<open>ValueError\<close>, which the decoding step does
  not catch: it reaches the handler's last \<open>except\<close> and the answer is 500, from each of
  the three handlers; the job is not run.
\<close>

theorem C10_counterexample_non_ascii_body_is_500:
  "b64decode_utf8 ascii_gate [CHR 0xE9]
     = Inl (Raised ValueError ''string argument should contain only ASCII characters'')
   \<and> body_str ascii_gate non_ascii_base64_event
     = Inl (Raised ValueError ''string argument should contain only ASCII characters'')
   \<and> fst (hacker_news_lambda_handler ascii_gate demo_hn non_ascii_base64_event empty_world)
     = json_response 500
         ''Internal server error: string argument should contain only ASCII characters''
   \<and> statusCode (fst (hacker_news_lambda_handler ascii_gate demo_hn non_ascii_base64_event
                        empty_world)) = 500
   \<and> statusCode (fst (tech_feed_lambda_handler ascii_gate demo_tf non_ascii_base64_event
                        empty_world)) = 500
   \<and> statusCode (fst (github_trending_lambda_handler ascii_gate demo_gt non_ascii_base64_event
                        empty_world)) = 500
   \<and> trace (snd (hacker_news_lambda_handler ascii_gate demo_hn non_ascii_base64_event
                    empty_world)) = []"
  by code_simp

section \<open>The Hacker News job: text of a story, and the empty run\<close>

lemma top_stories_loop_frame:
  "bucket (snd (top_stories_loop env ids stories w)) = bucket w
   \<and> puts (snd (top_stories_loop env ids stories w)) = puts w"
proof (induction ids arbitrary: stories w)
  case Nil
  then show ?case by simp
next
  case (Cons story_id ids)
  have step: "bucket (emit x w) = bucket w \<and> puts (emit (HttpGet u) w) = puts w" for x u
    by (simp add: emit_def puts_def)
  show ?case
    using Cons.IH step
    by (simp add: Let_def split: sum.splits)
qed

lemma get_top_stories_frame:
  "bucket (snd (get_top_stories env w)) = bucket w
   \<and> puts (snd (get_top_stories env w)) = puts w"
proof (cases "get_top_storie_ids env")
  case (Inl e)
  then show ?thesis
    by (simp add: get_top_stories_def emit_def puts_def)
next
  case (Inr ids)
  have "bucket (emit (HttpGet hacker_news_top_stories_url) w) = bucket w"
    and "puts (emit (HttpGet hacker_news_top_stories_url) w) = puts w"
    by (simp_all add: emit_def puts_def)
  with Inr show ?thesis
    by (simp add: get_top_stories_def top_stories_loop_frame)
qed

lemma story_kept_step:
  assumes "get_story env story_id = Inr story"
    and "\<not> item_score story < 20"
    and "story_summary env story = Inr sm"
  shows "top_stories_loop env (story_id # ids) stories w =
           top_stories_loop env ids (stories @ [make_story story sm])
             (emit (HttpGet (hacker_news_item_url story_id)) w)"
  using assms by simp

text \<open>
  Claim C3, as the code has it. For a story that survives the score filter and carries
  inline text \<open>t\<close>, the band is tested on the length of \<open>t\<close> as the API returned it,
  before any tag is stripped. If that length is strictly between 100 and 10000 and the
  summarizer returns \<open>s\<close> for the title and the stripped text, the story appended to the
  run's list has text \<open>s\<close>; if that length is at most 100 or at least 10000, the story
  appended has the stripped text.
\<close>

theorem C3_band_is_on_raw_length:
  assumes "get_story env story_id = Inr story"
    and "\<not> item_score story < 20"
    and "item_text story = Some t"
    and "t \<noteq> []"
  shows "(100 < length t \<and> length t < 10000
            \<and> hn_generate_content env (item_title story) (get_text env t) = Inr s
          \<longrightarrow> story_summary env story = Inr (Some s)
              \<and> story_text (make_story story (Some s)) = Some s
              \<and> top_stories_loop env (story_id # ids) stories w =
                  top_stories_loop env ids (stories @ [make_story story (Some s)])
                    (emit (HttpGet (hacker_news_item_url story_id)) w))
       \<and> (length t \<le> 100 \<or> 10000 \<le> length t
          \<longrightarrow> story_summary env story = Inr (Some (get_text env t))
              \<and> story_text (make_story story (Some (get_text env t))) = Some (get_text env t)
              \<and> top_stories_loop env (story_id # ids) stories w =
                  top_stories_loop env ids (stories @ [make_story story (Some (get_text env t))])
                    (emit (HttpGet (hacker_news_item_url story_id)) w))"
proof (intro conjI impI)
  assume band: "100 < length t \<and> length t < 10000
                \<and> hn_generate_content env (item_title story) (get_text env t) = Inr s"
  then show sum: "story_summary env story = Inr (Some s)"
    using assms(3,4)
    by (simp add: story_summary_def summarize_story_def cleanse_text_def)
  show "story_text (make_story story (Some s)) = Some s"
    by (simp add: make_story_def)
  show "top_stories_loop env (story_id # ids) stories w =
          top_stories_loop env ids (stories @ [make_story story (Some s)])
            (emit (HttpGet (hacker_news_item_url story_id)) w)"
    using assms(1,2) sum by (rule story_kept_step)
next
  assume out: "length t \<le> 100 \<or> 10000 \<le> length t"
  then show sum: "story_summary env story = Inr (Some (get_text env t))"
    using assms(3,4)
    by (auto simp add: story_summary_def cleanse_text_def)
  show "story_text (make_story story (Some (get_text env t))) = Some (get_text env t)"
    by (simp add: make_story_def)
  show "top_stories_loop env (story_id # ids) stories w =
          top_stories_loop env ids (stories @ [make_story story (Some (get_text env t))])
            (emit (HttpGet (hacker_news_item_url story_id)) w)"
    using assms(1,2) sum by (rule story_kept_step)
qed

lemma length_link_only_text: "length link_only_text = 114"
  by (simp add: link_only_text_def)

lemma get_text_link_only_text: "get_text demo_hn link_only_text = ''x''"
  by (simp add: link_only_text_def demo_hn_def)

theorem C3_band_is_on_raw_length_witness:
  "story_summary demo_hn link_story = Inr (Some ''Summary of Show HN: A link'')
   \<and> story_text (make_story link_story (Some ''Summary of Show HN: A link''))
       = Some ''Summary of Show HN: A link''
   \<and> story_summary demo_hn short_story = Inr (Some ''Hello'')
   \<and> story_text (make_story short_story (Some ''Hello'')) = Some ''Hello''"
proof -
  have a1: "get_story demo_hn 1 = Inr link_story"
    by (simp add: demo_hn_def)
  have b1: "\<not> item_score link_story < 20"
    by (simp add: link_story_def)
  have c1: "item_text link_story = Some link_only_text"
    by (simp add: link_story_def)
  have d1: "link_only_text \<noteq> []"
    using length_link_only_text by auto
  have e1: "100 < length link_only_text \<and> length link_only_text < 10000
            \<and> hn_generate_content demo_hn (item_title link_story) (get_text demo_hn link_only_text)
                = Inr ''Summary of Show HN: A link''"
    by (simp add: length_link_only_text) (simp add: demo_hn_def link_story_def)
  have a4: "get_story demo_hn 4 = Inr short_story"
    by (simp add: demo_hn_def)
  have b4: "\<not> item_score short_story < 20"
    by (simp add: short_story_def)
  have c4: "item_text short_story = Some ''<p>Hello</p>''"
    by (simp add: short_story_def)
  have d4: "''<p>Hello</p>'' \<noteq> []"
    by simp
  have e4: "length ''<p>Hello</p>'' \<le> 100 \<or> 10000 \<le> length ''<p>Hello</p>''"
    by simp
  have f4: "get_text demo_hn ''<p>Hello</p>'' = ''Hello''"
    by (simp add: demo_hn_def)
  show ?thesis
    using C3_band_is_on_raw_length [OF a1 b1 c1 d1, of "''Summary of Show HN: A link''"] e1
      C3_band_is_on_raw_length [OF a4 b4 c4 d4] e4 f4
    by simp
qed

text \<open>
  Claim C3 as worded puts the band on the stripped length. The first story of the example
  front page has a text of 114 characters, all markup but one: its stripped text is
  \<open>x\<close>, of length 1, yet the text kept for it is the summarizer's output and not the
  stripped text.
\<close>

theorem C3_counterexample_short_plain_text_is_summarized:
  "length (get_text demo_hn link_only_text) \<le> 100
   \<and> map story_text (projr (fst (get_top_stories demo_hn empty_world)))
       = [Some ''Summary of Show HN: A link'', None, Some ''Hello'']
   \<and> Some ''Summary of Show HN: A link'' \<noteq> Some (get_text demo_hn link_only_text)"
proof -
  have "map story_text (projr (fst (get_top_stories demo_hn empty_world)))
          = [Some ''Summary of Show HN: A link'', None, Some ''Hello'']"
    by code_simp
  then show ?thesis
    by (simp add: get_text_link_only_text)
qed

text \<open>
  Claim C4. If the run's list of surviving stories is empty, \<open>__call__\<close> returns
  normally without a put: the bucket is what it was and no put has been issued.
\<close>

theorem C4_no_surviving_story_no_write:
  assumes "fst (get_top_stories env w) = Inr []"
  shows "fst (hacker_news_call env w) = Inr ()
       \<and> bucket (snd (hacker_news_call env w)) = bucket w
       \<and> puts (snd (hacker_news_call env w)) = puts w"
proof -
  obtain w1 where g: "get_top_stories env w = (Inr [], w1)"
    using assms by (cases "get_top_stories env w") simp
  have "bucket w1 = bucket w \<and> puts w1 = puts w"
    using get_top_stories_frame [of env w] g by simp
  then show ?thesis
    using g by (simp add: hacker_news_call_def)
qed

theorem C4_no_surviving_story_no_write_witness:
  "fst (get_top_stories quiet_hn empty_world) = Inr []
   \<and> fst (hacker_news_call quiet_hn empty_world) = Inr ()
   \<and> bucket (snd (hacker_news_call quiet_hn empty_world)) = bucket empty_world
   \<and> puts (snd (hacker_news_call quiet_hn empty_world)) = []"
proof -
  have a: "fst (get_top_stories quiet_hn empty_world) = Inr []"
    by code_simp
  have b: "puts empty_world = []"
    by (simp add: puts_def empty_world_def)
  show ?thesis
    using a b C4_no_surviving_story_no_write [OF a] by simp
qed

text \<open>Low scores are what empties the list: stories below 20 never reach it.\<close>

lemma low_scores_leave_stories:
  assumes "\<forall>i \<in> set ids. \<exists>story. get_story env i = Inr story \<and> item_score story < 20"
  shows "fst (top_stories_loop env ids stories w) = Inr stories"
  using assms
proof (induction ids arbitrary: w)
  case Nil
  then show ?case by simp
next
  case (Cons i ids)
  then obtain story where "get_story env i = Inr story" "item_score story < 20"
    by auto
  then show ?case
    using Cons by (simp add: Let_def)
qed

section \<open>Placeholders in rendered entries\<close>

text \<open>
  GitHub Trending renders a missing or empty description as \<open>No description\<close>, and the
  tech feed job summarizes an article without text as a fixed sentence.
\<close>

lemma stylize_repository_info_placeholder:
  assumes "description r = None \<or> description r = Some []"
  shows "stylize_repository_info r =
           ''\<newline># '' @ repo_name r @ ''\<newline>\<newline>**Score**: '' @ str_int (stars r)
             @ ''\<newline>\<newline>[View Link]('' @ repo_link r @ '')\<newline>\<newline>''
             @ ''No description'' @ ''\<newline>''"
  using assms by (auto simp add: stylize_repository_info_def)

lemma summarize_article_placeholder:
  assumes "article_text a = [] \<or> isspace (article_text a)"
  shows "summarize_article env a = ''Content could not be retrieved or was empty.''"
  using assms by (auto simp add: summarize_article_def)

text \<open>
  Claim C2 fails in the Hacker News job. A story without \<open>url\<close> and without \<open>text\<close>
  (an item the API does return, for instance a hiring thread) passes the score filter with
  both fields \<open>None\<close>, and \<open>_stylize_story\<close> formats that \<open>None\<close>: the digest that
  the run stores ends in the line \<open>None\<close>, with no placeholder text.
\<close>

theorem C2_hacker_news_story_without_url_and_text_renders_None:
  "fst (get_top_stories bare_hn empty_world)
     = Inr [\<lparr>story_title = ''Ask HN: Who is hiring?'', story_score = 42,
              story_url = None, story_text = None\<rparr>]
   \<and> stylize_story \<lparr>story_title = ''Ask HN: Who is hiring?'', story_score = 42,
                     story_url = None, story_text = None\<rparr>
     = ''\<newline># Ask HN: Who is hiring?\<newline>\<newline>**Score**: 42\<newline>\<newline>None\<newline>''
   \<and> bucket (snd (hacker_news_call bare_hn empty_world)) ''hacker_news/2025-01-02.md''
     = Some ''\<newline># Ask HN: Who is hiring?\<newline>\<newline>**Score**: 42\<newline>\<newline>None\<newline>''"
  by code_simp

section \<open>The tech feed job: the date filter\<close>

lemma dated_after_threshold_iff:
  "dated_after_threshold env e \<longleftrightarrow> (\<exists>t. entry_datetime env e = Some t \<and> threshold env < t)"
  by (simp add: dated_after_threshold_def threshold_def threshold_days_def split: option.splits)

lemma kept_head_step:
  assumes "entry_datetime env e = Some t"
  shows "filter_entries_loop env (e # es) acc printed =
           (if threshold env < t then filter_entries_loop env es (acc @ [e]) printed
            else filter_entries_loop env es acc printed)"
  using assms
  by (auto simp add: entry_datetime_def split: option.splits sum.splits if_splits)

lemma dropped_head_prints:
  assumes "entry_datetime env e = None" and "entry_link e = Some l"
  shows "\<exists>d. diagnostic_link d = l
           \<and> filter_entries_loop env (e # es) acc printed
               = filter_entries_loop env es acc (printed @ [d])"
proof (cases "entry_date e")
  case None
  then have "filter_entries_loop env (e # es) acc printed
               = filter_entries_loop env es acc (printed @ [DateIsNone l])"
    using assms(2) by (simp add: attribute_def)
  moreover have "diagnostic_link (DateIsNone l) = l"
    by simp
  ultimately show ?thesis by blast
next
  case (Some d)
  show ?thesis
  proof (cases "d = []")
    case True
    with Some have "filter_entries_loop env (e # es) acc printed
               = filter_entries_loop env es acc (printed @ [DateIsNone l])"
      using assms(2) by (simp add: attribute_def)
    moreover have "diagnostic_link (DateIsNone l) = l"
      by simp
    ultimately show ?thesis by blast
  next
    case False
    with Some assms(1) obtain exn where exn: "fromtimestamp_mktime env d = Inl exn"
      by (auto simp add: entry_datetime_def split: sum.splits)
    with Some False have "filter_entries_loop env (e # es) acc printed
               = filter_entries_loop env es acc
                   (printed @ [DateConversionError (str_of_error exn) l])"
      using assms(2) by (simp add: attribute_def)
    moreover have "diagnostic_link (DateConversionError (str_of_error exn) l) = l"
      by simp
    ultimately show ?thesis by blast
  qed
qed

text \<open>
  An entry without a usable date and without a link is not dropped: the diagnostic raises
  and \<open>_filter_entries\<close> ends with the exception.
\<close>

lemma dropped_head_raises:
  assumes "entry_datetime env e = None" and "entry_link e = None"
  shows "filter_entries_loop env (e # es) acc printed
           = Inl (Raised AttributeError ''object has no attribute link'')"
  using assms
  by (auto simp add: entry_datetime_def attribute_def split: option.splits sum.splits if_splits)

lemma undated_entry_without_link_raises:
  "filter_entries demo_tf [anonymous_entry, fresh_post 1]
     = Inl (Raised AttributeError ''object has no attribute link'')"
  by code_simp

lemma filter_entries_loop_result:
  assumes "\<forall>e \<in> set es. entry_datetime env e = None \<longrightarrow> entry_link e \<noteq> None"
  shows "\<exists>more. filter_entries_loop env es acc printed
                  = Inr (acc @ filter (dated_after_threshold env) es, printed @ more)
              \<and> (\<forall>e \<in> set es. entry_datetime env e = None \<longrightarrow>
                    (\<exists>d \<in> set more. entry_link e = Some (diagnostic_link d)))"
  using assms
proof (induction es arbitrary: acc printed)
  case Nil
  then show ?case by simp
next
  case (Cons x es)
  have rest: "\<forall>e \<in> set es. entry_datetime env e = None \<longrightarrow> entry_link e \<noteq> None"
    using Cons.prems by simp
  show ?case
  proof (cases "entry_datetime env x")
    case None
    then obtain l where l: "entry_link x = Some l"
      using Cons.prems by auto
    obtain d where d: "diagnostic_link d = l"
      and step: "filter_entries_loop env (x # es) acc printed
                   = filter_entries_loop env es acc (printed @ [d])"
      using dropped_head_prints [OF None l] by blast
    obtain more where m: "filter_entries_loop env es acc (printed @ [d])
                  = Inr (acc @ filter (dated_after_threshold env) es, (printed @ [d]) @ more)"
      and ds: "\<forall>e \<in> set es. entry_datetime env e = None \<longrightarrow>
                    (\<exists>d \<in> set more. entry_link e = Some (diagnostic_link d))"
      using Cons.IH [OF rest, of acc "printed @ [d]"] by blast
    have nk: "\<not> dated_after_threshold env x"
      using None by (simp add: dated_after_threshold_def)
    have "filter_entries_loop env (x # es) acc printed
            = Inr (acc @ filter (dated_after_threshold env) (x # es), printed @ (d # more))"
      using step m nk by simp
    moreover have "\<forall>e \<in> set (x # es). entry_datetime env e = None \<longrightarrow>
                    (\<exists>d' \<in> set (d # more). entry_link e = Some (diagnostic_link d'))"
      using ds l d by auto
    ultimately show ?thesis by blast
  next
    case (Some t)
    have k: "dated_after_threshold env x \<longleftrightarrow> threshold env < t"
      using Some by (simp add: dated_after_threshold_iff)
    show ?thesis
    proof (cases "threshold env < t")
      case True
      obtain more where m: "filter_entries_loop env es (acc @ [x]) printed
                  = Inr ((acc @ [x]) @ filter (dated_after_threshold env) es, printed @ more)"
        and ds: "\<forall>e \<in> set es. entry_datetime env e = None \<longrightarrow>
                    (\<exists>d \<in> set more. entry_link e = Some (diagnostic_link d))"
        using Cons.IH [OF rest, of "acc @ [x]" printed] by blast
      have "filter_entries_loop env (x # es) acc printed
              = Inr (acc @ filter (dated_after_threshold env) (x # es), printed @ more)"
        using kept_head_step [OF Some, of es acc printed] True m k by simp
      moreover have "\<forall>e \<in> set (x # es). entry_datetime env e = None \<longrightarrow>
                    (\<exists>d \<in> set more. entry_link e = Some (diagnostic_link d))"
        using ds Some by auto
      ultimately show ?thesis by blast
    next
      case False
      obtain more where m: "filter_entries_loop env es acc printed
                  = Inr (acc @ filter (dated_after_threshold env) es, printed @ more)"
        and ds: "\<forall>e \<in> set es. entry_datetime env e = None \<longrightarrow>
                    (\<exists>d \<in> set more. entry_link e = Some (diagnostic_link d))"
        using Cons.IH [OF rest, of acc printed] by blast
      have "filter_entries_loop env (x # es) acc printed
              = Inr (acc @ filter (dated_after_threshold env) (x # es), printed @ more)"
        using kept_head_step [OF Some, of es acc printed] False m k by simp
      moreover have "\<forall>e \<in> set (x # es). entry_datetime env e = None \<longrightarrow>
                    (\<exists>d \<in> set more. entry_link e = Some (diagnostic_link d))"
        using ds Some by auto
      ultimately show ?thesis by blast
    qed
  qed
qed

text \<open>
  Claim C7, as the code has it. The date that decides is the one the code picks:
  \<open>date_parsed\<close> when the entry has it, and \<open>published_parsed\<close> only otherwise. When
  every entry without a usable date carries a link, \<open>_filter_entries\<close> returns, in feed
  order, exactly the entries whose date converts to a time strictly after the threshold,
  which is the construction time minus one day; an entry whose date is missing or cannot
  be converted is not kept, a diagnostic naming its link is printed, and the entries after
  it are filtered as usual.
\<close>

theorem C7_entry_kept_iff_its_date_is_after_threshold:
  assumes "\<forall>e \<in> set entries. entry_datetime env e = None \<longrightarrow> entry_link e \<noteq> None"
  shows "threshold env = now env - 86400000000
       \<and> (\<exists>printed.
             filter_entries env entries = Inr (filter (dated_after_threshold env) entries, printed)
             \<and> (\<forall>e \<in> set entries. entry_datetime env e = None \<longrightarrow>
                   (\<exists>d \<in> set printed. entry_link e = Some (diagnostic_link d))))
       \<and> (\<forall>e. dated_after_threshold env e \<longleftrightarrow>
                (\<exists>t. entry_datetime env e = Some t \<and> now env - 86400000000 < t))"
proof -
  have thr: "threshold env = now env - 86400000000"
    by (simp add: threshold_def threshold_days_def microseconds_per_day_def)
  have test: "\<forall>e. dated_after_threshold env e \<longleftrightarrow>
                (\<exists>t. entry_datetime env e = Some t \<and> now env - 86400000000 < t)"
    using thr by (simp add: dated_after_threshold_iff)
  have "\<exists>printed.
          filter_entries env entries = Inr (filter (dated_after_threshold env) entries, printed)
          \<and> (\<forall>e \<in> set entries. entry_datetime env e = None \<longrightarrow>
                (\<exists>d \<in> set printed. entry_link e = Some (diagnostic_link d)))"
    using filter_entries_loop_result [OF assms, of "[]" "[]"]
    by (simp add: filter_entries_def)
  then show ?thesis
    using thr test by blast
qed

theorem C7_entry_kept_iff_its_date_is_after_threshold_witness:
  "(\<exists>printed d. filter_entries demo_tf mixed_entries
         = Inr ([fresh_post 1, post 4 None (Some [2025, 1, 2, 10, 30, 0, 3, 2, 0])], printed)
         \<and> d \<in> set printed
         \<and> entry_link (post 7 None None) = Some (diagnostic_link d))
   \<and> entry_datetime demo_tf (post 7 None None) = None
   \<and> entry_link (post 7 None None) = Some ''https://blog.example/post/7''
   \<and> entry_datetime demo_tf (post 5 (Some [2025, 1, 1, 12, 0, 0, 2, 1, 0]) None)
       = Some (threshold demo_tf)"
proof -
  have h: "\<forall>e \<in> set mixed_entries. entry_datetime demo_tf e = None \<longrightarrow> entry_link e \<noteq> None"
    by code_simp
  have a: "filter (dated_after_threshold demo_tf) mixed_entries
             = [fresh_post 1, post 4 None (Some [2025, 1, 2, 10, 30, 0, 3, 2, 0])]"
    by code_simp
  have b: "entry_datetime demo_tf (post 5 (Some [2025, 1, 1, 12, 0, 0, 2, 1, 0]) None)
             = Some (threshold demo_tf)"
    by code_simp
  have c: "post 7 None None \<in> set mixed_entries"
    by (simp add: mixed_entries_def)
  have d: "entry_datetime demo_tf (post 7 None None) = None"
    by (simp add: entry_datetime_def entry_date_def post_def)
  obtain printed where
    r: "filter_entries demo_tf mixed_entries
          = Inr (filter (dated_after_threshold demo_tf) mixed_entries, printed)"
    and ds: "\<forall>e \<in> set mixed_entries. entry_datetime demo_tf e = None \<longrightarrow>
               (\<exists>d \<in> set printed. entry_link e = Some (diagnostic_link d))"
    using C7_entry_kept_iff_its_date_is_after_threshold [OF h] by blast
  have l: "entry_link (post 7 None None) = Some ''https://blog.example/post/7''"
    by code_simp
  obtain x where "x \<in> set printed" "entry_link (post 7 None None) = Some (diagnostic_link x)"
    using ds c d by blast
  then have "\<exists>printed d. filter_entries demo_tf mixed_entries
         = Inr ([fresh_post 1, post 4 None (Some [2025, 1, 2, 10, 30, 0, 3, 2, 0])], printed)
         \<and> d \<in> set printed
         \<and> entry_link (post 7 None None) = Some (diagnostic_link d)"
    using r unfolding a by blast
  then show ?thesis
    using b d l by blast
qed

text \<open>
  Claim C7 as worded decides by the publish date. Post 9 was published after the threshold
  but its \<open>date_parsed\<close> is older: it is dropped, without a diagnostic. Post 3 was
  published before the threshold but its \<open>date_parsed\<close> is fresh: it is kept.
\<close>

theorem C7_counterexample_publish_date_does_not_decide:
  "published_after_threshold demo_tf republished_post
   \<and> filter_entries demo_tf [republished_post] = Inr ([], [])
   \<and> parsed_publish_date demo_tf republished_post = Some 208800000000
   \<and> threshold demo_tf = 129600000000
   \<and> parsed_publish_date demo_tf touched_post = Some 115200000000
   \<and> \<not> published_after_threshold demo_tf touched_post
   \<and> filter_entries demo_tf [touched_post] = Inr ([touched_post], [])"
  by code_simp

section \<open>The tech feed job: the cap on entries and the run\<close>

lemma retrieve_article_world:
  "snd (retrieve_article env e name w)
     = (case entry_link e of None \<Rightarrow> w | Some l \<Rightarrow> emit (HttpGet l) w)"
  by (simp add: retrieve_article_def attribute_def Let_def split: option.splits sum.splits)

lemma retrieve_article_without_link:
  assumes "entry_link e = None"
  shows "\<exists>err. retrieve_article env e name w = (Inl err, w)"
  using assms by (simp add: retrieve_article_def attribute_def)

text \<open>
  The requests of the loop over the entries of one feed are requests for the links of a
  prefix of the entries, in order; when the loop completes, every entry was requested and
  one rendered entry per entry was appended.
\<close>

lemma entries_loop_trace:
  "bucket (snd (entries_loop env name es markdowns w)) = bucket w
   \<and> (\<exists>k \<le> length es.
         trace (snd (entries_loop env name es markdowns w))
           = trace w @ map HttpGet (List.map_filter entry_link (take k es)))
   \<and> (\<forall>m. fst (entries_loop env name es markdowns w) = Inr m \<longrightarrow>
         trace (snd (entries_loop env name es markdowns w))
           = trace w @ map HttpGet (List.map_filter entry_link es)
         \<and> length (List.map_filter entry_link es) = length es
         \<and> length m = length markdowns + length es
         \<and> take (length markdowns) m = markdowns)"
proof (induction es arbitrary: markdowns w)
  case Nil
  then show ?case by (simp add: List.map_filter_simps)
next
  case (Cons e es)
  show ?case
  proof (cases "entry_link e")
    case None
    then obtain err where stop: "entries_loop env name (e # es) markdowns w = (Inl err, w)"
      using retrieve_article_without_link [of e env name w] by auto
    have "trace w = trace w @ map HttpGet (List.map_filter entry_link (take 0 (e # es)))"
      by (simp add: List.map_filter_simps)
    then have "\<exists>k \<le> length (e # es).
                 trace w = trace w @ map HttpGet (List.map_filter entry_link (take k (e # es)))"
      by blast
    then show ?thesis
      using stop by simp
  next
    case (Some l)
    let ?w1 = "emit (HttpGet l) w"
    have w1: "bucket ?w1 = bucket w" "trace ?w1 = trace w @ [HttpGet l]"
      by (simp_all add: emit_def)
    have mf: "List.map_filter entry_link (e # xs) = l # List.map_filter entry_link xs" for xs
      using Some by (simp add: List.map_filter_simps)
    obtain r where r: "retrieve_article env e name w = (r, ?w1)"
      using retrieve_article_world [of env e name w] Some
      by (cases "retrieve_article env e name w") simp
    show ?thesis
    proof (cases r)
      case (Inl err)
      then have stop: "entries_loop env name (e # es) markdowns w = (Inl err, ?w1)"
        using r by simp
      have "trace ?w1 = trace w @ map HttpGet (List.map_filter entry_link (take 1 (e # es)))"
        using w1 Some by (simp add: List.map_filter_simps)
      then have "\<exists>k \<le> length (e # es).
                   trace ?w1 = trace w @ map HttpGet (List.map_filter entry_link (take k (e # es)))"
        by (metis One_nat_def Suc_leI length_Cons zero_less_Suc)
      then show ?thesis
        using stop w1 by simp
    next
      case (Inr a)
      let ?m1 = "markdowns @ [stylize_article (a\<lparr>summary := summarize_article env a\<rparr>)]"
      have go: "entries_loop env name (e # es) markdowns w = entries_loop env name es ?m1 ?w1"
        using r Inr by simp
      from Cons.IH [of ?m1 ?w1] obtain k where k: "k \<le> length es"
        and tk: "trace (snd (entries_loop env name es ?m1 ?w1))
                   = trace ?w1 @ map HttpGet (List.map_filter entry_link (take k es))"
        by blast
      have "trace (snd (entries_loop env name es ?m1 ?w1))
              = trace w @ map HttpGet (List.map_filter entry_link (take (Suc k) (e # es)))"
        using tk w1 mf by simp
      then have part2: "\<exists>k \<le> length (e # es).
          trace (snd (entries_loop env name (e # es) markdowns w))
            = trace w @ map HttpGet (List.map_filter entry_link (take k (e # es)))"
        using k go by (metis Suc_le_mono length_Cons)
      have part1: "bucket (snd (entries_loop env name (e # es) markdowns w)) = bucket w"
        using Cons.IH [of ?m1 ?w1] go w1 by simp
      have part3: "\<forall>m. fst (entries_loop env name (e # es) markdowns w) = Inr m \<longrightarrow>
           trace (snd (entries_loop env name (e # es) markdowns w))
             = trace w @ map HttpGet (List.map_filter entry_link (e # es))
           \<and> length (List.map_filter entry_link (e # es)) = length (e # es)
           \<and> length m = length markdowns + length (e # es)
           \<and> take (length markdowns) m = markdowns"
      proof (intro allI impI)
        fix m
        assume "fst (entries_loop env name (e # es) markdowns w) = Inr m"
        then have m: "fst (entries_loop env name es ?m1 ?w1) = Inr m"
          using go by simp
        with Cons.IH [of ?m1 ?w1]
        have t: "trace (snd (entries_loop env name es ?m1 ?w1))
                   = trace ?w1 @ map HttpGet (List.map_filter entry_link es)"
          and n: "length (List.map_filter entry_link es) = length es"
          and l: "length m = length ?m1 + length es"
          and p: "take (length ?m1) m = ?m1"
          by blast+
        have "take (length markdowns) (take (length ?m1) m) = markdowns"
          using p by simp
        then have "take (length markdowns) m = markdowns"
          by (simp add: min_def)
        then show "trace (snd (entries_loop env name (e # es) markdowns w))
             = trace w @ map HttpGet (List.map_filter entry_link (e # es))
           \<and> length (List.map_filter entry_link (e # es)) = length (e # es)
           \<and> length m = length markdowns + length (e # es)
           \<and> take (length markdowns) m = markdowns"
          using t n l go w1 mf by simp
      qed
      show ?thesis
        using part1 part2 part3 by blast
    qed
  qed
qed

lemma entries_loop_completes:
  assumes "\<forall>e \<in> set es. \<exists>l t html plain.
             entry_link e = Some l \<and> entry_title e = Some t
             \<and> requests_get env l = Inr html \<and> find_all_text env html = Inr plain"
  shows "\<exists>m. fst (entries_loop env name es markdowns w) = Inr m"
  using assms
proof (induction es arbitrary: markdowns w)
  case Nil
  then show ?case by simp
next
  case (Cons e es)
  then obtain l t html plain where "entry_link e = Some l" "entry_title e = Some t"
    and "requests_get env l = Inr html" and "find_all_text env html = Inr plain"
    by auto
  then obtain a where "retrieve_article env e name w = (Inr a, emit (HttpGet l) w)"
    by (simp add: retrieve_article_def attribute_def)
  then show ?case
    using Cons by simp
qed

lemma single_feed:
  assumes "feedparser_parse env feed_url = Inr parsed"
    and "filter_entries env parsed = Inr (survivors, printed)"
  shows "feeds_loop env [(name, feed_url)] markdowns w =
           entries_loop env name (cap_entries survivors) markdowns (emit (FeedParse feed_url) w)"
  using assms
  by (cases "entries_loop env name (cap_entries survivors) markdowns (emit (FeedParse feed_url) w)")
    (simp add: Let_def split: sum.splits)

text \<open>
  When a feed has more date-surviving entries than the cap, which is 10, the loop over its
  entries runs on the first 10 of them, in feed order: the article requests of the feed are
  requests for a prefix of these 10, no entry past the cap is ever requested, and when no
  retrieval raises all 10 are requested and 10 rendered entries are appended.
\<close>

lemma feed_over_cap_runs_on_first_ten:
  assumes "feedparser_parse env feed_url = Inr parsed"
    and "filter_entries env parsed = Inr (survivors, printed)"
    and "length survivors > tech_feed_max_entries_per_day"
  shows "tech_feed_max_entries_per_day = 10
       \<and> cap_entries survivors = take 10 survivors
       \<and> length (cap_entries survivors) = 10
       \<and> feeds_loop env [(name, feed_url)] markdowns w =
           entries_loop env name (take 10 survivors) markdowns (emit (FeedParse feed_url) w)
       \<and> (\<exists>k \<le> 10.
             trace (snd (feeds_loop env [(name, feed_url)] markdowns w))
               = trace w @ FeedParse feed_url
                   # map HttpGet (List.map_filter entry_link (take k survivors)))
       \<and> (\<forall>m. fst (feeds_loop env [(name, feed_url)] markdowns w) = Inr m \<longrightarrow>
             trace (snd (feeds_loop env [(name, feed_url)] markdowns w))
               = trace w @ FeedParse feed_url
                   # map HttpGet (List.map_filter entry_link (take 10 survivors))
             \<and> length (List.map_filter entry_link (take 10 survivors)) = 10
             \<and> length m = length markdowns + 10
             \<and> take (length markdowns) m = markdowns)"
proof -
  let ?s = "survivors"
  let ?w1 = "emit (FeedParse feed_url) w"
  have cap: "tech_feed_max_entries_per_day = 10"
    by (simp add: tech_feed_max_entries_per_day_def)
  have long: "10 < length ?s"
    using assms(3) cap by simp
  have c: "cap_entries ?s = take 10 ?s"
    using long by (simp add: cap_entries_def cap)
  have len: "length (take 10 ?s) = 10"
    using long by simp
  have run: "feeds_loop env [(name, feed_url)] markdowns w
               = entries_loop env name (take 10 ?s) markdowns ?w1"
    using single_feed [OF assms(1,2)] c by simp
  have w1: "trace ?w1 = trace w @ [FeedParse feed_url]"
    by (simp add: emit_def)
  from entries_loop_trace [of env name "take 10 ?s" markdowns ?w1]
  obtain k where k: "k \<le> length (take 10 ?s)"
    and tk: "trace (snd (entries_loop env name (take 10 ?s) markdowns ?w1))
               = trace ?w1 @ map HttpGet (List.map_filter entry_link (take k (take 10 ?s)))"
    and all: "\<forall>m. fst (entries_loop env name (take 10 ?s) markdowns ?w1) = Inr m \<longrightarrow>
               trace (snd (entries_loop env name (take 10 ?s) markdowns ?w1))
                 = trace ?w1 @ map HttpGet (List.map_filter entry_link (take 10 ?s))
               \<and> length (List.map_filter entry_link (take 10 ?s)) = length (take 10 ?s)
               \<and> length m = length markdowns + length (take 10 ?s)
               \<and> take (length markdowns) m = markdowns"
    by blast
  have k10: "k \<le> 10"
    using k len by simp
  then have "take k (take 10 ?s) = take k ?s"
    by (simp add: min_def)
  then have prefix: "\<exists>k \<le> 10.
             trace (snd (feeds_loop env [(name, feed_url)] markdowns w))
               = trace w @ FeedParse feed_url
                   # map HttpGet (List.map_filter entry_link (take k ?s))"
    using tk w1 run k10 by auto
  have full: "\<forall>m. fst (feeds_loop env [(name, feed_url)] markdowns w) = Inr m \<longrightarrow>
             trace (snd (feeds_loop env [(name, feed_url)] markdowns w))
               = trace w @ FeedParse feed_url
                   # map HttpGet (List.map_filter entry_link (take 10 ?s))
             \<and> length (List.map_filter entry_link (take 10 ?s)) = 10
             \<and> length m = length markdowns + 10
             \<and> take (length markdowns) m = markdowns"
    using all w1 run len by simp
  show ?thesis
    using cap c len run prefix full by simp
qed

section \<open>Publishing the digest\<close>

lemma store_summaries_puts:
  "puts (snd (store_summaries job s3 summaries w))
     = puts w @ [PutObject (summary_key job (today s3)) (join separator summaries)]"
proof (cases "put_object s3 (summary_key job (today s3)) (join separator summaries)")
  case None
  then show ?thesis
    by (simp add: store_summaries_def Let_def puts_def emit_def)
next
  case (Some e)
  then show ?thesis
    by (cases e) (simp add: store_summaries_def Let_def puts_def emit_def)
qed

lemma store_summaries_accepted:
  assumes "put_object s3 (summary_key job (today s3)) (join separator summaries) = None"
  shows "fst (store_summaries job s3 summaries w) = Inr ()
       \<and> bucket (snd (store_summaries job s3 summaries w)) (summary_key job (today s3))
           = Some (join separator summaries)"
  using assms by (simp add: store_summaries_def Let_def)

lemma languages_loop_frame:
  "bucket (snd (languages_loop env ls markdowns w)) = bucket w
   \<and> puts (snd (languages_loop env ls markdowns w)) = puts w"
proof (induction ls arbitrary: markdowns w)
  case Nil
  then show ?case by simp
next
  case (Cons language ls)
  have step: "bucket (emit (HttpGet u) w) = bucket w \<and> puts (emit (HttpGet u) w) = puts w" for u
    by (simp add: emit_def puts_def)
  show ?case
    using Cons.IH step by (simp add: Let_def split: sum.splits)
qed

text \<open>
  The GitHub Trending job issues its put on every run of \<open>__call__\<close>, whatever the
  languages did, and the object is in the bucket when the store accepts it; with nothing
  rendered the content is the empty string.
\<close>

lemma github_trending_call_puts:
  "puts (snd (github_trending_call env w))
     = puts w @ [PutObject (summary_key ''github_trending'' (today (gt_s3 env)))
                   (join separator (fst (languages_loop env (languages env) [] w)))]"
  using languages_loop_frame [of env "languages env" "[]" w]
  by (simp add: github_trending_call_def store_summaries_puts case_prod_beta)

lemma github_trending_call_accepted:
  assumes "put_object (gt_s3 env) (summary_key ''github_trending'' (today (gt_s3 env)))
             (join separator (fst (languages_loop env (languages env) [] w))) = None"
  shows "fst (github_trending_call env w) = Inr ()
       \<and> bucket (snd (github_trending_call env w))
             (summary_key ''github_trending'' (today (gt_s3 env)))
           = Some (join separator (fst (languages_loop env (languages env) [] w)))"
  using assms store_summaries_accepted [of "gt_s3 env" "''github_trending''"
      "fst (languages_loop env (languages env) [] w)" "snd (languages_loop env (languages env) [] w)"]
  by (simp add: github_trending_call_def case_prod_beta)

lemma github_trending_idle_run:
  "puts (snd (github_trending_call idle_gt empty_world))
     = [PutObject ''github_trending/2025-01-02.md'' []]
   \<and> bucket (snd (github_trending_call idle_gt empty_world)) ''github_trending/2025-01-02.md''
     = Some []"
  by code_simp

lemma entries_loop_puts:
  "puts (snd (entries_loop env name es markdowns w)) = puts w"
proof -
  obtain k where "trace (snd (entries_loop env name es markdowns w))
                    = trace w @ map HttpGet (List.map_filter entry_link (take k es))"
    using entries_loop_trace [of env name es markdowns w] by blast
  then show ?thesis
    by (simp add: puts_def filter_map comp_def)
qed

lemma feeds_loop_frame:
  "bucket (snd (feeds_loop env fs markdowns w)) = bucket w
   \<and> puts (snd (feeds_loop env fs markdowns w)) = puts w"
proof (induction fs arbitrary: markdowns w)
  case Nil
  then show ?case by simp
next
  case (Cons f fs)
  obtain name feed_url where f: "f = (name, feed_url)"
    by (cases f)
  let ?w1 = "emit (FeedParse feed_url) w"
  have w1: "bucket ?w1 = bucket w \<and> puts ?w1 = puts w"
    by (simp add: emit_def puts_def)
  show ?case
  proof (cases "feedparser_parse env feed_url")
    case (Inl err)
    then show ?thesis
      using f w1 by (simp add: Let_def)
  next
    case parsed: (Inr parsed)
    show ?thesis
    proof (cases "filter_entries env parsed")
      case (Inl err)
      then show ?thesis
        using f parsed w1 by (simp add: Let_def)
    next
      case (Inr kept)
      obtain survivors printed where kept: "kept = (survivors, printed)"
        by (cases kept)
      let ?r = "entries_loop env name (cap_entries survivors) markdowns ?w1"
      have inner: "bucket (snd ?r) = bucket w \<and> puts (snd ?r) = puts w"
        using entries_loop_trace [of env name "cap_entries survivors" markdowns ?w1]
          entries_loop_puts [of env name "cap_entries survivors" markdowns ?w1]
          w1 by simp
      show ?thesis
      proof (cases "fst ?r")
        case (Inl err)
        then show ?thesis
          using f parsed Inr kept inner by (simp add: Let_def case_prod_beta)
      next
        case m: (Inr m)
        then have "feeds_loop env (f # fs) markdowns w = feeds_loop env fs m (snd ?r)"
          using f parsed Inr kept by (simp add: Let_def case_prod_beta)
        then show ?thesis
          using Cons.IH [of m "snd ?r"] inner by simp
      qed
    qed
  qed
qed

text \<open>
  The tech feed job issues its put when the loop over the feeds completes, and not
  otherwise.
\<close>

lemma tech_feed_call_puts_when_loop_completes:
  assumes "fst (feeds_loop env (tech_feed_urls env) [] w) = Inr markdowns"
  shows "puts (snd (tech_feed_call env w))
           = puts w @ [PutObject (summary_key ''tech_feed'' (today (tf_s3 env)))
                         (join separator markdowns)]"
  using assms feeds_loop_frame [of env "tech_feed_urls env" "[]" w]
  by (simp add: tech_feed_call_def store_summaries_puts case_prod_beta)

lemma tech_feed_call_no_put_when_loop_raises:
  assumes "fst (feeds_loop env (tech_feed_urls env) [] w) = Inl err"
  shows "fst (tech_feed_call env w) = Inl err
       \<and> puts (snd (tech_feed_call env w)) = puts w
       \<and> bucket (snd (tech_feed_call env w)) = bucket w"
  using assms feeds_loop_frame [of env "tech_feed_urls env" "[]" w]
  by (simp add: tech_feed_call_def case_prod_beta)

lemma tech_feed_idle_run:
  "puts (snd (tech_feed_call idle_tf empty_world)) = [PutObject ''tech_feed/2025-01-02.md'' []]
   \<and> bucket (snd (tech_feed_call idle_tf empty_world)) ''tech_feed/2025-01-02.md'' = Some []"
  by code_simp

section \<open>The tech feed job: one article that cannot be retrieved\<close>

text \<open>
  Claim C1 fails. The first feed of the example run has two fresh entries; the request for
  the first raises, the second could be retrieved. \<open>_retrieve_article\<close> wraps the
  exception and raises it again, and nothing in \<open>__call__\<close> catches it: the run ends
  there. The second entry and the second feed are never requested, nothing is stored, and
  the handler answers the scheduler with a bare 500.
\<close>

theorem C1_one_failed_article_aborts_the_run:
  "entry_link (fresh_post 2) = Some ''https://blog.example/post/2''
   \<and> requests_get broken_tf ''https://blog.example/post/2''
       = Inl (Raised OtherException ''connection refused'')
   \<and> entry_link (fresh_post 1) = Some ''https://blog.example/post/1''
   \<and> requests_get broken_tf ''https://blog.example/post/1''
       = Inr ''<p>Body of https://blog.example/post/1</p>''
   \<and> fst (tech_feed_call broken_tf empty_world)
       = Inl (Raised OtherException ''Error raised while retrieving article: connection refused'')
   \<and> trace (snd (tech_feed_call broken_tf empty_world))
       = [FeedParse ''https://blog.example/broken'', HttpGet ''https://blog.example/post/2'']
   \<and> fst (tech_feed_lambda_handler demo_gate broken_tf scheduled_event empty_world)
       = bare_response 500
   \<and> trace (snd (tech_feed_lambda_handler demo_gate broken_tf scheduled_event empty_world))
       = [FeedParse ''https://blog.example/broken'', HttpGet ''https://blog.example/post/2'']"
  by code_simp

text \<open>
  Claim C9 fails in the tech feed job, through the same propagation: on the run above no put
  is issued and the bucket has no object under today's key.
\<close>

theorem C9_tech_feed_run_without_write:
  "fst (tech_feed_call broken_tf empty_world)
     = Inl (Raised OtherException ''Error raised while retrieving article: connection refused'')
   \<and> puts (snd (tech_feed_call broken_tf empty_world)) = []
   \<and> bucket (snd (tech_feed_call broken_tf empty_world))
        (summary_key ''tech_feed'' (today (tf_s3 broken_tf))) = None
   \<and> summary_key ''tech_feed'' (today (tf_s3 broken_tf)) = ''tech_feed/2025-01-02.md''"
  by code_simp

section \<open>The tech feed job: the cap, when an article cannot be retrieved\<close>

text \<open>
  Claim C8 fails, through the same propagation. The feed of the example run has twelve
  entries, all of which survive the date filter, so the first ten are to be processed. The
  first is retrieved (its page is empty) and rendered; the request for the second raises and
  the run ends there: of the ten entries under the cap, eight are never requested, and
  nothing is stored.
\<close>

theorem C8_failed_article_leaves_capped_entries_unprocessed:
  "feedparser_parse dozen_tf ''https://blog.example/dozen'' = Inr dozen_entries
   \<and> filter_entries dozen_tf dozen_entries = Inr (dozen_entries, [])
   \<and> length dozen_entries = 12
   \<and> List.map_filter entry_link (cap_entries dozen_entries)
       = [''https://blog.example/post/30'', ''https://blog.example/post/2'',
          ''https://blog.example/post/31'', ''https://blog.example/post/32'',
          ''https://blog.example/post/33'', ''https://blog.example/post/34'',
          ''https://blog.example/post/35'', ''https://blog.example/post/36'',
          ''https://blog.example/post/37'', ''https://blog.example/post/38'']
   \<and> fst (tech_feed_call dozen_tf empty_world)
       = Inl (Raised OtherException ''Error raised while retrieving article: connection refused'')
   \<and> trace (snd (tech_feed_call dozen_tf empty_world))
       = [FeedParse ''https://blog.example/dozen'',
          HttpGet ''https://blog.example/post/30'', HttpGet ''https://blog.example/post/2'']
   \<and> puts (snd (tech_feed_call dozen_tf empty_world)) = []"
  by code_simp

end
